theory Spec2Isabelle
  imports Complex_Main "HOL-Library.Sublist" "HOL-Library.AList"
begin

section \<open>Errors\<close>

text \<open>
  Every \<^verbatim>\<open>raise\<close>, failed \<^verbatim>\<open>assert\<close> and failing built-in operation of
  \<^verbatim>\<open>core.py\<close> is a value of this type; a function that can raise returns
  \<open>error + 'a\<close> with \<open>Inl\<close> for the exception.  \<open>TypeError\<close> and \<open>Exception\<close>
  carry the message of the source.
\<close>

datatype error =
    TypeError string
  | IndexError
  | ValueError
  | AttributeError
  | AssertionError
  | NotImplementedError
  | Exception string

section \<open>The elementwise loop generator\<close>

text \<open>
  A template of the source is a Python format string with the single key
  \<^verbatim>\<open>%(loop_var)s\<close>; \<^verbatim>\<open>template % dict(loop_var = v)\<close> is modelled as the
  application of a function to \<open>v\<close>.  The eight templates of \<^verbatim>\<open>elemwise_wrap\<close>:
\<close>

definition general_init :: "string \<Rightarrow> string" where
  "general_init loop_var =
     ''PyArrayIterObject* '' @ loop_var @
     ''_iter = (PyArrayIterObject*)PyArray_IterNew((PyObject*)'' @ loop_var @ '');\<newline>''"

definition general_next :: "string \<Rightarrow> string" where
  "general_next loop_var = ''PyArray_ITER_NEXT('' @ loop_var @ ''_iter);\<newline>''"

definition general_acquire :: "string \<Rightarrow> string" where
  "general_acquire loop_var = ''*(('' @ loop_var @ ''_dtype*)'' @ loop_var @ ''_iter->dataptr)''"

definition general_cleanup :: "string \<Rightarrow> string" where
  "general_cleanup loop_var =
     ''if ('' @ loop_var @ ''_iter) Py_DECREF('' @ loop_var @ ''_iter);\<newline>''"

definition contiguous_init :: "string \<Rightarrow> string" where
  "contiguous_init loop_var =
     loop_var @ ''_dtype* __restrict__ '' @ loop_var @ ''_iter = ('' @ loop_var @
     ''_dtype*)PyArray_DATA('' @ loop_var @ '');\<newline>''"

definition contiguous_next :: "string \<Rightarrow> string" where
  "contiguous_next loop_var = loop_var @ ''_iter++;\<newline>''"

definition contiguous_acquire :: "string \<Rightarrow> string" where
  "contiguous_acquire loop_var = ''*'' @ loop_var @ ''_iter''"

definition contiguous_cleanup :: "string \<Rightarrow> string" where
  "contiguous_cleanup loop_var = ''''"

text \<open>
  The entries of the \<^verbatim>\<open>template\<close> dictionary of \<^verbatim>\<open>elemwise_loopcode\<close>.  The
  dictionary \<^verbatim>\<open>aliases\<close> is an association list: \<^verbatim>\<open>aliases.items()\<close> is the list
  itself (Python leaves the order of the items open; no statement below depends
  on it).
\<close>

definition idefs :: "(string \<Rightarrow> string) \<Rightarrow> string list \<Rightarrow> string" where
  "idefs acquire_template loop_vars =
     concat (map (\<lambda>loop_var. loop_var @ ''_dtype '' @ loop_var @ ''_i = '' @
                    acquire_template loop_var @ '';\<newline>'') loop_vars)"

definition odefs :: "(string \<Rightarrow> string) \<Rightarrow> string list \<Rightarrow> string" where
  "odefs acquire_template writable_loop_vars =
     concat (map (\<lambda>loop_var. loop_var @ ''_dtype& '' @ loop_var @ ''_i = '' @
                    acquire_template loop_var @ '';\<newline>'') writable_loop_vars)"

definition aliasdefs :: "(string \<times> string) list \<Rightarrow> string" where
  "aliasdefs aliases =
     concat (map (\<lambda>(v1, v2). v1 @ ''_dtype '' @ v1 @ ''_i = '' @ v2 @ ''_i;\<newline>'') aliases)"

definition elemwise_loopcode ::
  "string \<Rightarrow> (string \<Rightarrow> string) \<Rightarrow> (string \<Rightarrow> string) \<Rightarrow> (string \<Rightarrow> string) \<Rightarrow>
   (string \<Rightarrow> string) \<Rightarrow> string list \<Rightarrow> string list \<Rightarrow> (string \<times> string) list \<Rightarrow> string" where
  "elemwise_loopcode loopcode init_template next_template acquire_template cleanup_template
       loop_vars writable_loop_vars aliases =
     (let all_loop_vars = loop_vars @ writable_loop_vars in
      ''\<newline>    '' @ concat (map init_template all_loop_vars) @
      ''\<newline>    while (__elemwise_size--) {\<newline>        '' @
      idefs acquire_template loop_vars @
      ''\<newline>        '' @ odefs acquire_template writable_loop_vars @
      ''\<newline>        '' @ aliasdefs aliases @
      ''\<newline>        '' @ loopcode @
      ''\<newline>        '' @ concat (map next_template all_loop_vars) @
      ''\<newline>    }\<newline>    '' @ concat (map cleanup_template all_loop_vars) @
      ''\<newline>    '')"

definition general_loop ::
  "string \<Rightarrow> string list \<Rightarrow> string list \<Rightarrow> (string \<times> string) list \<Rightarrow> string" where
  "general_loop inloop loop_vars writable_loop_vars aliases =
     elemwise_loopcode inloop general_init general_next general_acquire general_cleanup
       loop_vars writable_loop_vars aliases"

definition contiguous_loop ::
  "string \<Rightarrow> string list \<Rightarrow> string list \<Rightarrow> (string \<times> string) list \<Rightarrow> string" where
  "contiguous_loop inloop loop_vars writable_loop_vars aliases =
     elemwise_loopcode inloop contiguous_init contiguous_next contiguous_acquire
       contiguous_cleanup loop_vars writable_loop_vars aliases"

definition contiguity_check :: "string list \<Rightarrow> string" where
  "contiguity_check all_loop_vars =
     concat (map (\<lambda>loop_var.
        ''all_c_contiguous &= PyArray_ISCARRAY('' @ loop_var @ '');\<newline>'' @
        ''all_f_contiguous &= PyArray_ISFARRAY('' @ loop_var @ '');\<newline>'') all_loop_vars)"

text \<open>
  \<^verbatim>\<open>elemwise_wrap\<close>.  The first entry of its dictionary is
  \<^verbatim>\<open>(loop_vars + writable_loop_vars)[0]\<close>, which raises \<^verbatim>\<open>IndexError\<close> when there is
  no loop variable at all.
\<close>

definition elemwise_wrap ::
  "string \<Rightarrow> string \<Rightarrow> string \<Rightarrow> string list \<Rightarrow> string list \<Rightarrow> (string \<times> string) list \<Rightarrow>
   error + string" where
  "elemwise_wrap beforeloop inloop afterloop loop_vars writable_loop_vars aliases =
     (let all_loop_vars = loop_vars @ writable_loop_vars in
      case all_loop_vars of
        [] \<Rightarrow> Inl IndexError
      | v1 # _ \<Rightarrow> Inr (
          ''\<newline>    npy_intp __elemwise_size = PyArray_SIZE('' @ v1 @ '');\<newline>    '' @
          beforeloop @
          ''\<newline>    bool all_c_contiguous = 1;\<newline>    bool all_f_contiguous = 1;\<newline>    '' @
          contiguity_check all_loop_vars @
          ''\<newline>    if (all_c_contiguous || all_f_contiguous) {\<newline>        '' @
          contiguous_loop inloop loop_vars writable_loop_vars aliases @
          ''\<newline>    }\<newline>    else {\<newline>        '' @
          general_loop inloop loop_vars writable_loop_vars aliases @
          ''\<newline>    }\<newline>    '' @
          afterloop @
          ''\<newline>    ''))"

subsection \<open>What the emitted guard does when the kernel runs\<close>

text \<open>
  The guard that \<^verbatim>\<open>elemwise_wrap\<close> emits is straight-line C: two flags initialised
  to 1, then for each loop variable the two statements of \<open>contiguity_check\<close>, then
  one \<^verbatim>\<open>if\<close>.  Its statements are kept as data, with the text each one stands for,
  so that the run below is a run of the emitted text (lemma \<open>render_check_stmts\<close>).
  The macros \<^verbatim>\<open>PyArray_ISCARRAY\<close> and \<^verbatim>\<open>PyArray_ISFARRAY\<close> belong to numpy; what they
  answer for a variable at run time is a parameter.
\<close>

datatype guard_stmt = AndC string | AndF string

fun render_stmt :: "guard_stmt \<Rightarrow> string" where
  "render_stmt (AndC loop_var) = ''all_c_contiguous &= PyArray_ISCARRAY('' @ loop_var @ '');\<newline>''"
| "render_stmt (AndF loop_var) = ''all_f_contiguous &= PyArray_ISFARRAY('' @ loop_var @ '');\<newline>''"

definition check_stmts :: "string list \<Rightarrow> guard_stmt list" where
  "check_stmts all_loop_vars = concat (map (\<lambda>loop_var. [AndC loop_var, AndF loop_var]) all_loop_vars)"

record flags =
  all_c_contiguous :: bool
  all_f_contiguous :: bool

fun exec_stmt :: "(string \<Rightarrow> bool) \<Rightarrow> (string \<Rightarrow> bool) \<Rightarrow> flags \<Rightarrow> guard_stmt \<Rightarrow> flags" where
  "exec_stmt iscarray isfarray fl (AndC v) = fl\<lparr>all_c_contiguous := all_c_contiguous fl \<and> iscarray v\<rparr>"
| "exec_stmt iscarray isfarray fl (AndF v) = fl\<lparr>all_f_contiguous := all_f_contiguous fl \<and> isfarray v\<rparr>"

definition run_check :: "(string \<Rightarrow> bool) \<Rightarrow> (string \<Rightarrow> bool) \<Rightarrow> string list \<Rightarrow> flags" where
  "run_check iscarray isfarray all_loop_vars =
     foldl (exec_stmt iscarray isfarray)
       \<lparr>all_c_contiguous = True, all_f_contiguous = True\<rparr> (check_stmts all_loop_vars)"

text \<open>
  What the two macros answer is decided by the flags of the array.  As the header
  \<^verbatim>\<open>ndarrayobject.h\<close> of numpy defines them, \<^verbatim>\<open>PyArray_ISCARRAY(m)\<close> is
  \<^verbatim>\<open>PyArray_CHKFLAGS(m, NPY_CARRAY) && PyArray_ISNOTSWAPPED(m)\<close> with \<^verbatim>\<open>NPY_CARRAY\<close> the flags
  \<^verbatim>\<open>NPY_CONTIGUOUS | NPY_ALIGNED | NPY_WRITEABLE\<close>, and \<^verbatim>\<open>PyArray_ISFARRAY(m)\<close> is the same
  with \<^verbatim>\<open>NPY_FORTRAN\<close> in the place of \<^verbatim>\<open>NPY_CONTIGUOUS\<close>: each asks for more than
  contiguity.
\<close>

record ndarray_flags =
  c_contiguous :: bool
  f_contiguous :: bool
  aligned :: bool
  writeable :: bool
  notswapped :: bool

definition PyArray_ISCARRAY :: "ndarray_flags \<Rightarrow> bool" where
  "PyArray_ISCARRAY m = ((c_contiguous m \<and> aligned m \<and> writeable m) \<and> notswapped m)"

definition PyArray_ISFARRAY :: "ndarray_flags \<Rightarrow> bool" where
  "PyArray_ISFARRAY m = ((f_contiguous m \<and> aligned m \<and> writeable m) \<and> notswapped m)"

text \<open>
  For closed examples: the flags of three one-dimensional contiguous arrays bound to
  \<^verbatim>\<open>x\<close>, \<^verbatim>\<open>y\<close> and \<^verbatim>\<open>z\<close>, of which \<^verbatim>\<open>x\<close> is read-only (\<^verbatim>\<open>x.flags.writeable = False\<close>).
\<close>

definition readonly_x_flags :: "string \<Rightarrow> ndarray_flags" where
  "readonly_x_flags v =
     \<lparr>c_contiguous = True, f_contiguous = True, aligned = True,
      writeable = (v \<noteq> ''x''), notswapped = True\<rparr>"

datatype loop_path = Contiguous | General

definition selected_loop :: "(string \<Rightarrow> bool) \<Rightarrow> (string \<Rightarrow> bool) \<Rightarrow> string list \<Rightarrow> loop_path" where
  "selected_loop iscarray isfarray all_loop_vars =
     (let fl = run_check iscarray isfarray all_loop_vars in
      if all_c_contiguous fl \<or> all_f_contiguous fl then Contiguous else General)"

section \<open>Kernel units: \<^verbatim>\<open>cgen\<close>\<close>

text \<open>
  Object identity is an address.  A Result is known by its identity \<open>rid\<close>; the value
  of its \<^verbatim>\<open>data\<close> attribute is the sentinel \<^verbatim>\<open>UNCOMPUTED\<close> or a reference to an object
  on the heap.
\<close>

type_synonym rid = nat
type_synonym addr = nat

datatype handle = UNCOMPUTED | Ref addr

text \<open>
  \<^verbatim>\<open>scipy.weave\<close>, \<^verbatim>\<open>type_spec\<close> and \<^verbatim>\<open>md5\<close> are libraries outside the repository.
  What \<^verbatim>\<open>cgen\<close> reads of a weave variable specification is the record \<open>cspec\<close>; the
  library functions are the fields of \<open>extern\<close>, a parameter of every function that
  calls them.  \<open>md5\<close> stands for \<^verbatim>\<open>md5.md5(s).hexdigest()\<close>.
\<close>

record cspec =
  spec_name :: string
  use_ref_count :: bool
  struct_members_code :: string
  struct_support_code :: string
  struct_typedefs :: string
  struct_import_code :: string

record 'c extern =
  md5 :: "string \<Rightarrow> string"
  type_spec_default :: "'c list"
  is_omega_type_converter_extension :: "'c \<Rightarrow> bool"
  assign_variable_types :: "string list \<Rightarrow> (string \<times> handle) list \<Rightarrow> 'c list \<Rightarrow> cspec list"

fun cgetspecs_d :: "(string \<times> handle) list \<Rightarrow> (string \<times> handle) list \<Rightarrow> (string \<times> handle) list" where
  "cgetspecs_d [] d = d"
| "cgetspecs_d ((name, data) # rest) d = cgetspecs_d rest (AList.update name data d)"

definition cgetspecs ::
  "'c extern \<Rightarrow> (rid \<Rightarrow> handle) \<Rightarrow> string list \<Rightarrow> rid list \<Rightarrow> 'c list \<Rightarrow>
   (string \<times> handle) list \<times> cspec list" where
  "cgetspecs ext data_of names vals converters =
     (let d = cgetspecs_d (zip names (map data_of vals)) []
      in (d, assign_variable_types ext names d converters))"

definition struct_contents :: "string \<Rightarrow> cspec list \<Rightarrow> string" where
  "struct_contents behavior specs =
     ''\<newline>      '' @ concat (map struct_typedefs specs) @
     ''\<newline>\<newline>      '' @ concat (map struct_members_code specs) @
     ''\<newline>\<newline>      '' @ concat (map struct_support_code specs) @
     ''\<newline>\<newline>      void init(void) {\<newline>        '' @
     concat (map (\<lambda>spec. ''Py_INCREF(py_'' @ spec_name spec @ '');\<newline>'')
               (filter use_ref_count specs)) @
     ''\<newline>      }\<newline>\<newline>      void cleanup(void) {\<newline>        '' @
     concat (map (\<lambda>spec. ''Py_DECREF(py_'' @ spec_name spec @ '');\<newline>'')
               (filter use_ref_count specs)) @
     ''\<newline>      }\<newline>\<newline>      int execute(void) {\<newline>        '' @ behavior @
     ''\<newline>        return 0;\<newline>      }\<newline>    ''"

definition struct_name :: "'c extern \<Rightarrow> string \<Rightarrow> string \<Rightarrow> string" where
  "struct_name ext name contents = ''_omega_'' @ name @ ''_'' @ md5 ext contents"

definition struct_text :: "string \<Rightarrow> string \<Rightarrow> string" where
  "struct_text sn contents = ''struct '' @ sn @ '' { '' @ contents @ ''\<newline>};''"

definition static_text :: "string \<Rightarrow> string" where
  "static_text sn =
     ''\<newline>    int '' @ sn @ ''_executor('' @ sn @ ''* self) {\<newline>        return self->execute();\<newline>    }\<newline>'' @
     ''\<newline>    void '' @ sn @ ''_destructor(void* executor, void* self) {\<newline>        (('' @ sn @
     ''*)self)->cleanup();\<newline>        free(self);\<newline>    }\<newline>    ''"

definition instantiate_code :: "string \<Rightarrow> cspec list \<Rightarrow> string" where
  "instantiate_code sn specs =
     sn @ ''* __STRUCT_P = new '' @ sn @ ''();\<newline>'' @
     concat (map struct_import_code specs) @
     ''__STRUCT_P->init();\<newline>'' @
     ''return_val = PyCObject_FromVoidPtrAndDesc((void*)(&'' @ sn @
     ''_executor), __STRUCT_P, '' @ sn @ ''_destructor);\<newline>''"

text \<open>What \<^verbatim>\<open>cgen\<close> returns: the tuple \<^verbatim>\<open>(d, names, code, struct + static, converters)\<close>.\<close>

record 'c cgen_result =
  cg_d :: "(string \<times> handle) list"
  cg_names :: "string list"
  cg_code :: string
  cg_struct :: string
  cg_converters :: "'c list"

definition cgen ::
  "'c extern \<Rightarrow> (rid \<Rightarrow> handle) \<Rightarrow> string \<Rightarrow> string \<Rightarrow> string list \<Rightarrow> rid list \<Rightarrow>
   'c list option \<Rightarrow> error + 'c cgen_result" where
  "cgen ext data_of name behavior names vals converters =
     (let converters = (case converters of None \<Rightarrow> type_spec_default ext
                        | Some cs \<Rightarrow> if cs = [] then type_spec_default ext else cs)
      in if \<not> list_all (is_omega_type_converter_extension ext) converters
         then Inl AssertionError
         else
           let (d, specs) = cgetspecs ext data_of names vals converters;
               contents = struct_contents behavior specs;
               sn = struct_name ext name contents
           in Inr \<lparr>cg_d = d, cg_names = names, cg_code = instantiate_code sn specs,
                   cg_struct = struct_text sn contents @ static_text sn,
                   cg_converters = converters\<rparr>)"

section \<open>Elementwise operators: \<^verbatim>\<open>elemwise.c_code\<close>\<close>

text \<open>
  An instance of a subclass of \<^verbatim>\<open>omega_op\<close> has a class name, inputs and outputs.
  An instance of a subclass of \<^verbatim>\<open>elemwise\<close> has more, as far as \<^verbatim>\<open>c_code\<close> reads it.
  \<open>inames\<close>, \<open>onames\<close> are what \<^verbatim>\<open>self.variable_names()\<close> returns and \<open>linames\<close>,
  \<open>lonames\<close> what \<^verbatim>\<open>self.loop_variables()\<close> returns (subclasses such as
  \<^verbatim>\<open>tensor_scalar_op\<close> override both).  \<open>c_impl_r\<close>, \<open>c_init_r\<close>, \<open>c_foreach_r\<close> and
  \<open>c_finalize_r\<close> are the outcomes of the calls \<^verbatim>\<open>self._c_impl()\<close>, \<^verbatim>\<open>self._c_init()\<close>,
  \<^verbatim>\<open>self._c_foreach()\<close> and \<^verbatim>\<open>self._c_finalize()\<close>.  \<open>is_inplace\<close> is
  \<^verbatim>\<open>isinstance(self, inplace)\<close> and \<open>destroy_map\<close> the dictionary that
  \<^verbatim>\<open>self.destroy_map()\<close> returns, from an output to the list of inputs it overwrites.
\<close>

record omega_op =
  cls_name :: string
  inputs :: "rid list"
  outputs :: "rid list"

record elemwise = omega_op +
  inames :: "string list"
  onames :: "string list"
  linames :: "string list"
  lonames :: "string list"
  c_impl_r :: "error + string"
  c_init_r :: "error + string"
  c_foreach_r :: "error + string"
  c_finalize_r :: "error + string"
  is_inplace :: bool
  destroy_map :: "(rid \<times> rid list) list"

text \<open>\<^verbatim>\<open>xs.index(x)\<close>, \<^verbatim>\<open>xs[i]\<close> for an index \<open>i \<ge> 0\<close>, and \<^verbatim>\<open>dmap.get(k, [])\<close>.\<close>

fun index_of :: "'a list \<Rightarrow> 'a \<Rightarrow> error + nat" where
  "index_of [] x = Inl ValueError"
| "index_of (y # ys) x =
     (if y = x then Inr 0
      else case index_of ys x of Inl e \<Rightarrow> Inl e | Inr i \<Rightarrow> Inr (Suc i))"

definition py_nth :: "'a list \<Rightarrow> nat \<Rightarrow> error + 'a" where
  "py_nth xs i = (if i < length xs then Inr (xs ! i) else Inl IndexError)"

definition dict_get :: "('k \<times> 'v list) list \<Rightarrow> 'k \<Rightarrow> 'v list" where
  "dict_get d k = (case map_of d k of None \<Rightarrow> [] | Some v \<Rightarrow> v)"

text \<open>
  The two nested loops of \<^verbatim>\<open>c_code\<close> that fill \<^verbatim>\<open>aliases\<close>: the inner one over
  \<^verbatim>\<open>dmap.get(output, [])\<close>, the outer one over \<^verbatim>\<open>zip(onames, self.outputs)\<close>.
\<close>

fun alias_inputs ::
  "elemwise \<Rightarrow> string \<Rightarrow> rid list \<Rightarrow> (string \<times> string) list \<Rightarrow> error + (string \<times> string) list" where
  "alias_inputs self oname [] aliases = Inr aliases"
| "alias_inputs self oname (input # rest) aliases =
     (case index_of (inputs self) input of
        Inl e \<Rightarrow> Inl e
      | Inr i \<Rightarrow>
          (case py_nth (inames self) i of
             Inl e \<Rightarrow> Inl e
           | Inr iname \<Rightarrow> alias_inputs self oname rest (AList.update iname oname aliases)))"

fun alias_outputs ::
  "elemwise \<Rightarrow> (string \<times> rid) list \<Rightarrow> (string \<times> string) list \<Rightarrow> error + (string \<times> string) list" where
  "alias_outputs self [] aliases = Inr aliases"
| "alias_outputs self ((oname, output) # rest) aliases =
     (if oname \<in> set (lonames self)
      then (case alias_inputs self oname (dict_get (destroy_map self) output) aliases of
              Inl e \<Rightarrow> Inl e
            | Inr aliases' \<Rightarrow> alias_outputs self rest aliases')
      else alias_outputs self rest aliases)"

definition c_code_aliases :: "elemwise \<Rightarrow> error + (string \<times> string) list" where
  "c_code_aliases self =
     (if is_inplace self then alias_outputs self (zip (onames self) (outputs self)) []
      else Inr [])"

text \<open>The first list handed to \<^verbatim>\<open>elemwise_wrap\<close>: \<^verbatim>\<open>[name for name in linames if name not in aliases]\<close>.\<close>

definition c_code_loop_vars :: "elemwise \<Rightarrow> (string \<times> string) list \<Rightarrow> string list" where
  "c_code_loop_vars self aliases = filter (\<lambda>name. name \<notin> fst ` set aliases) (linames self)"

definition c_code_behavior :: "elemwise \<Rightarrow> error + string" where
  "c_code_behavior self =
     (case c_impl_r self of
        Inr _ \<Rightarrow> Inl (Exception ''c_impl is not used by elemwise ops - define behavior in c_foreach instead'')
      | Inl e \<Rightarrow>
          if e \<noteq> NotImplementedError then Inl e
          else (case c_init_r self of Inl e \<Rightarrow> Inl e | Inr before \<Rightarrow>
               (case c_foreach_r self of Inl e \<Rightarrow> Inl e | Inr during \<Rightarrow>
               (case c_finalize_r self of Inl e \<Rightarrow> Inl e | Inr after \<Rightarrow>
               (case c_code_aliases self of Inl e \<Rightarrow> Inl e | Inr aliases \<Rightarrow>
                  elemwise_wrap before during after
                    (c_code_loop_vars self aliases) (lonames self) aliases)))))"

definition c_code ::
  "'c extern \<Rightarrow> (rid \<Rightarrow> handle) \<Rightarrow> elemwise \<Rightarrow> 'c list option \<Rightarrow> error + 'c cgen_result" where
  "c_code ext data_of self converters =
     (case c_code_behavior self of
        Inl e \<Rightarrow> Inl e
      | Inr behavior \<Rightarrow>
          cgen ext data_of (cls_name self) behavior (inames self @ onames self)
            (inputs self @ outputs self) converters)"



text \<open>\<^verbatim>\<open>add_elemwise_inplace(x, y)\<close> on two Results, 0 and 1; the output is 2.\<close>

definition add_elemwise_inplace_xy :: elemwise where
  "add_elemwise_inplace_xy =
     \<lparr>cls_name = ''add_elemwise_inplace'', inputs = [0, 1], outputs = [2],
      inames = [''x'', ''y''], onames = [''z''], linames = [''x'', ''y''], lonames = [''z''],
      c_impl_r = Inl NotImplementedError, c_init_r = Inr '''',
      c_foreach_r = Inr ''z_i = x_i + y_i;'', c_finalize_r = Inr '''',
      is_inplace = True, destroy_map = [(2, [0])]\<rparr>"

section \<open>Compiling a kernel: \<^verbatim>\<open>omega_op.c_code\<close> and \<^verbatim>\<open>omega_op.c_thunk_factory\<close>\<close>

text \<open>
  \<^verbatim>\<open>omega_op.c_code\<close>, the method that \<^verbatim>\<open>elemwise\<close> overrides: the behaviour is what
  \<^verbatim>\<open>self._c_impl()\<close> returns, and \<open>inames\<close>, \<open>onames\<close> are the argument names of
  \<^verbatim>\<open>c_impl\<close>.
\<close>

definition omega_op_c_code ::
  "'c extern \<Rightarrow> (rid \<Rightarrow> handle) \<Rightarrow> elemwise \<Rightarrow> 'c list option \<Rightarrow> error + 'c cgen_result" where
  "omega_op_c_code ext data_of self converters =
     (case c_impl_r self of
        Inl e \<Rightarrow> Inl e
      | Inr behavior \<Rightarrow>
          cgen ext data_of (cls_name self) behavior (inames self @ onames self)
            (inputs self @ outputs self) converters)"

text \<open>
  What \<^verbatim>\<open>c_thunk_factory\<close> reads of an operator: the outcome of \<^verbatim>\<open>self.c_code()\<close> and
  the three hooks \<^verbatim>\<open>c_support_code\<close>, \<^verbatim>\<open>c_headers\<close> and \<^verbatim>\<open>c_libs\<close>.  What it hands to
  weave is the record \<open>ext_module\<close>: the name of the module, the function
  \<^verbatim>\<open>instantiate\<close> with its code and argument names, the support code, the compiler
  arguments, the headers and the libraries.  Compiling and importing the module
  (\<^verbatim>\<open>mod.compile\<close>, \<^verbatim>\<open>__import__\<close>) are weave's and Python's and are not modelled; the
  name of the module is the key under which the compiled file is stored and found
  again.
\<close>

record 'c native_op =
  c_code_r :: "error + 'c cgen_result"
  c_support_code :: string
  c_headers :: "string list"
  c_libs :: "string list"

record ext_module =
  mod_name :: string
  function_code :: string
  function_args :: "string list"
  support_code :: string
  extra_compile_args :: "string list"
  headers :: "string list"
  libraries :: "string list"

definition c_thunk_factory :: "'c extern \<Rightarrow> 'c native_op \<Rightarrow> error + ext_module" where
  "c_thunk_factory ext self =
     (case c_code_r self of
        Inl e \<Rightarrow> Inl e
      | Inr cg \<Rightarrow>
          Inr \<lparr>mod_name = md5 ext (cg_code cg),
               function_code = cg_code cg,
               function_args = cg_names cg,
               support_code = c_support_code self @ cg_struct cg,
               extra_compile_args = [''-O3'', ''-ffast-math'', ''-falign-loops=4''],
               headers = c_headers self,
               libraries = c_libs self\<rparr>)"

text \<open>
  Libraries for closed examples: the hash is the identity, which is injective and so
  as favourable to distinct keys as a hash can be; there is one converter, and weave
  derives one reference-counted array specification for each name.
\<close>

definition plain_extern :: "unit extern" where
  "plain_extern =
     \<lparr>md5 = (\<lambda>s. s),
      type_spec_default = [()],
      is_omega_type_converter_extension = (\<lambda>c. True),
      assign_variable_types = (\<lambda>names d converters.
        map (\<lambda>name. \<lparr>spec_name = name, use_ref_count = True,
                        struct_members_code = ''PyArrayObject* '' @ name @ '';\<newline>'',
                        struct_support_code = [],
                        struct_typedefs = [],
                        struct_import_code = ''__STRUCT_P->'' @ name @ '' = '' @ name @ '';\<newline>''\<rparr>)
            names)\<rparr>"

text \<open>
  \<^verbatim>\<open>add_elemwise(x, y)\<close> on two Results 0 and 1 with output 2, and a subclass of
  \<^verbatim>\<open>add_elemwise\<close> that overrides only the hook \<^verbatim>\<open>c_support_code\<close>.
\<close>

definition add_elemwise_xy :: elemwise where
  "add_elemwise_xy =
     \<lparr>cls_name = ''add_elemwise'', inputs = [0, 1], outputs = [2],
      inames = [''x'', ''y''], onames = [''z''], linames = [''x'', ''y''], lonames = [''z''],
      c_impl_r = Inl NotImplementedError, c_init_r = Inr [],
      c_foreach_r = Inr ''z_i = x_i + y_i;'', c_finalize_r = Inr [],
      is_inplace = False, destroy_map = []\<rparr>"

definition add_native :: "string \<Rightarrow> unit native_op" where
  "add_native support =
     \<lparr>c_code_r = c_code plain_extern (\<lambda>r. Ref r) add_elemwise_xy None,
      c_support_code = support, c_headers = [], c_libs = []\<rparr>"

text \<open>
  A class name does not identify a class (\<^verbatim>\<open>core.py\<close> itself defines \<^verbatim>\<open>sqr\<close>, \<^verbatim>\<open>sqrt\<close> and
  \<^verbatim>\<open>scale\<close> twice).  For closed examples: an instance of another class of the name
  \<^verbatim>\<open>add_elemwise\<close> whose \<^verbatim>\<open>c_foreach\<close> adds in the other order.
\<close>

definition add_elemwise_yx :: elemwise where
  "add_elemwise_yx = add_elemwise_xy\<lparr>c_foreach_r := Inr ''z_i = y_i + x_i;''\<rparr>"

definition add_native_yx :: "unit native_op" where
  "add_native_yx =
     \<lparr>c_code_r = c_code plain_extern (\<lambda>r. Ref r) add_elemwise_yx None,
      c_support_code = [], c_headers = [], c_libs = []\<rparr>"

section \<open>Results, raw values and the state of the interpreter\<close>

text \<open>
  A Result is an object of class \<^verbatim>\<open>NumpyR\<close>, of class \<^verbatim>\<open>gof.PythonR\<close> (the base class of
  \<^verbatim>\<open>NumpyR\<close>) or of another subclass of \<^verbatim>\<open>gof.Result\<close>.  Its attributes, as far as
  \<^verbatim>\<open>core.py\<close> reads and writes them: \<^verbatim>\<open>data\<close>, \<^verbatim>\<open>spec\<close> (\<^verbatim>\<open>None\<close> or the triple of a
  container kind, a dtype and a shape, where the shape may be \<^verbatim>\<open>None\<close>),
  \<^verbatim>\<open>constant\<close> and \<^verbatim>\<open>up_to_date\<close>.  A dtype is the name numpy gives it.
\<close>

datatype rclass = NumpyR | PythonR | OtherResult

type_synonym spec = "string \<times> string \<times> nat list option"

record result =
  rclass :: rclass
  data :: handle
  spec :: "spec option"
  constant_flag :: bool
  up_to_date :: bool

text \<open>
  The heap holds the objects that a \<^verbatim>\<open>data\<close> attribute can refer to: numpy arrays
  with their dtype, shape and elements, and objects of any other kind, which have no
  attribute \<^verbatim>\<open>shape\<close>.  The elements of an array are of an abstract type \<open>'v\<close> of
  numbers.
\<close>

datatype 'v pyobj = Array (dtype_of: string) (shape_of: "nat list") (elems_of: "'v list") | Object

text \<open>
  The state: the Results and the heap, each a list indexed by identity, and the two
  module-level dictionaries \<^verbatim>\<open>literals_db\<close> and \<^verbatim>\<open>literals_id_db\<close>.  A raw Python value,
  the argument of \<^verbatim>\<open>input\<close>, \<^verbatim>\<open>wrap\<close> and \<^verbatim>\<open>literal\<close>, is a number (an \<^verbatim>\<open>int\<close> or a
  \<^verbatim>\<open>float\<close>), a numpy array, a Result, an \<^verbatim>\<open>omega_op\<close> (with the Result that its
  attribute \<^verbatim>\<open>out\<close> gives), or another object, hashable or not.
\<close>

datatype 'v pyval =
    Num 'v
  | NdarrayV addr
  | ResultV rid
  | OpV addr rid
  | HashableV addr
  | UnhashableV addr

record 'v state =
  results :: "result list"
  heap :: "'v pyobj list"
  literals_db :: "('v pyval \<times> rid) list"
  literals_id_db :: "(addr \<times> rid) list"

definition heap_get :: "'v state \<Rightarrow> addr \<Rightarrow> 'v pyobj" where
  "heap_get st a = (if a < length (heap st) then heap st ! a else Object)"

definition heap_alloc :: "'v pyobj \<Rightarrow> 'v state \<Rightarrow> addr \<times> 'v state" where
  "heap_alloc obj st = (length (heap st), st\<lparr>heap := heap st @ [obj]\<rparr>)"

text \<open>\<^verbatim>\<open>NumpyR.refresh\<close>: the spec of a Result whose data is an array.\<close>

definition refresh_spec :: "'v state \<Rightarrow> handle \<Rightarrow> spec option \<Rightarrow> spec option" where
  "refresh_spec st h old =
     (case h of
        UNCOMPUTED \<Rightarrow> old
      | Ref a \<Rightarrow> (case heap_get st a of
                    Array dt sh es \<Rightarrow> Some (''numpy.ndarray'', dt, Some sh)
                  | Object \<Rightarrow> old))"

text \<open>
  Modelled from the spec: the constructors \<^verbatim>\<open>NumpyR(x)\<close> and \<^verbatim>\<open>PythonR(x)\<close> are inherited
  from \<^verbatim>\<open>gof.PythonR\<close>, which is not part of the source.  A raw value wrapped as an
  input becomes the data of a new Result, which is not constant; the spec of a new
  \<^verbatim>\<open>NumpyR\<close> is that of its array.
\<close>

definition new_result :: "rclass \<Rightarrow> handle \<Rightarrow> 'v state \<Rightarrow> rid \<times> 'v state" where
  "new_result cls h st =
     (length (results st),
      st\<lparr>results := results st @
         [\<lparr>rclass = cls, data = h,
           spec = (if cls = NumpyR then refresh_spec st h None else None),
           constant_flag = False, up_to_date = True\<rparr>]\<rparr>)"

definition address_of :: "'v pyval \<Rightarrow> addr option" where
  "address_of x =
     (case x of NdarrayV a \<Rightarrow> Some a | OpV a out \<Rightarrow> Some a | HashableV a \<Rightarrow> Some a
      | UnhashableV a \<Rightarrow> Some a | _ \<Rightarrow> None)"

text \<open>
  numpy is a library outside the repository; what the source asks of it is the record
  \<open>numpy\<close>, a parameter of every function that calls it.  \<open>zeros_dtype d\<close> is the dtype
  of \<^verbatim>\<open>numpy.zeros((), dtype = d)\<close> and \<open>add_dtype d1 d2\<close> the dtype of the sum of two
  zero-dimensional arrays of dtypes \<open>d1\<close> and \<open>d2\<close>.  \<open>zeros_iadd d x\<close> is the element
  that \<^verbatim>\<open>z\<close> holds after \<^verbatim>\<open>z = numpy.zeros((), dtype = d); z += x\<close> for a number \<open>x\<close>:
  the sum is stored in the array of dtype \<open>d\<close>, so it is \<open>x\<close> as that dtype can hold it.
  \<open>astype d1 d2 v\<close> is the element \<open>v\<close> of an array of dtype \<open>d1\<close> as stored into an
  array of dtype \<open>d2\<close>, \<open>asarray_object a\<close> the array that \<^verbatim>\<open>numpy.asarray\<close> builds from
  the object at \<open>a\<close> when it is not an array, and \<open>assign_other dst src\<close> the elements
  that \<^verbatim>\<open>dst[:] = src\<close> stores when \<open>src\<close> is not an array of the shape of \<open>dst\<close> (numpy
  broadcasts or raises).  \<open>zero_dim_slice_error\<close> is the exception that numpy raises
  when an array of dimension zero is sliced (a \<^verbatim>\<open>ValueError\<close> or an \<^verbatim>\<open>IndexError\<close>, by its
  version).
\<close>

record 'v numpy =
  zeros_dtype :: "string \<Rightarrow> string"
  add_dtype :: "string \<Rightarrow> string \<Rightarrow> string"
  zeros_iadd :: "string \<Rightarrow> 'v \<Rightarrow> 'v"
  astype :: "string \<Rightarrow> string \<Rightarrow> 'v \<Rightarrow> 'v"
  asarray_object :: "addr \<Rightarrow> 'v pyobj"
  assign_other :: "'v pyobj \<Rightarrow> 'v pyobj \<Rightarrow> error + 'v list"
  zero_dim_slice_error :: error

text \<open>
  \<^verbatim>\<open>input\<close>.  The message of the \<^verbatim>\<open>TypeError\<close> is the format string of the source; the
  printed form of \<open>x\<close> that replaces \<^verbatim>\<open>%s\<close> is not modelled.  A number is added in place
  to a new zero-dimensional array of zeros of dtype \<^verbatim>\<open>default_input_scalar_dtype\<close>, so
  what the array holds is the number as a \<^verbatim>\<open>float64\<close>, not the number itself.  (The
  source is Python 2, where an \<^verbatim>\<open>int\<close> is a machine integer and a \<^verbatim>\<open>long\<close> is not an
  \<^verbatim>\<open>int\<close>: every number that reaches this branch has a \<^verbatim>\<open>float64\<close> nearest to it.)
\<close>

definition default_input_scalar_dtype :: string where
  "default_input_scalar_dtype = ''float64''"

definition input :: "'v numpy \<Rightarrow> 'v pyval \<Rightarrow> 'v state \<Rightarrow> error + rid \<times> 'v state" where
  "input np x st =
     (case x of
        NdarrayV a \<Rightarrow> Inr (new_result NumpyR (Ref a) st)
      | Num n \<Rightarrow>
          (let (z, st') = heap_alloc
                 (Array default_input_scalar_dtype [] [zeros_iadd np default_input_scalar_dtype n]) st
           in Inr (new_result NumpyR (Ref z) st'))
      | ResultV r \<Rightarrow> Inl (TypeError ''%s is already a result.'')
      | OpV a out \<Rightarrow> Inr (new_result PythonR (Ref a) st)
      | HashableV a \<Rightarrow> Inr (new_result PythonR (Ref a) st)
      | UnhashableV a \<Rightarrow> Inr (new_result PythonR (Ref a) st))"

text \<open>\<^verbatim>\<open>_hashable\<close>, \<^verbatim>\<open>_literal_hashable\<close>, \<^verbatim>\<open>_literal_unhashable\<close> and \<^verbatim>\<open>literal\<close>.\<close>

definition hashable :: "'v pyval \<Rightarrow> bool" where
  "hashable x = (case x of NdarrayV a \<Rightarrow> False | UnhashableV a \<Rightarrow> False | _ \<Rightarrow> True)"

definition set_constant :: "rid \<Rightarrow> 'v state \<Rightarrow> 'v state" where
  "set_constant r st = st\<lparr>results := (results st)[r := (results st ! r)\<lparr>constant_flag := True\<rparr>]\<rparr>"

definition literal_hashable :: "'v numpy \<Rightarrow> 'v pyval \<Rightarrow> 'v state \<Rightarrow> error + rid \<times> 'v state" where
  "literal_hashable np x st =
     (case map_of (literals_db st) x of
        Some r \<Rightarrow> Inr (r, st)
      | None \<Rightarrow>
          (case input np x st of
             Inl e \<Rightarrow> Inl e
           | Inr (r, st') \<Rightarrow>
               Inr (r, (set_constant r st')\<lparr>literals_db := AList.update x r (literals_db st')\<rparr>)))"

definition literal_unhashable :: "'v numpy \<Rightarrow> 'v pyval \<Rightarrow> 'v state \<Rightarrow> error + rid \<times> 'v state" where
  "literal_unhashable np x st =
     (let idx = (case address_of x of Some a \<Rightarrow> a | None \<Rightarrow> 0) in
      case map_of (literals_id_db st) idx of
        Some r \<Rightarrow> Inr (r, st)
      | None \<Rightarrow>
          (case input np x st of
             Inl e \<Rightarrow> Inl e
           | Inr (r, st') \<Rightarrow>
               Inr (r, (set_constant r st')\<lparr>literals_id_db := AList.update idx r (literals_id_db st')\<rparr>)))"

definition literal :: "'v numpy \<Rightarrow> 'v pyval \<Rightarrow> 'v state \<Rightarrow> error + rid \<times> 'v state" where
  "literal np x st = (if hashable x then literal_hashable np x st else literal_unhashable np x st)"

definition wrap :: "'v numpy \<Rightarrow> 'v pyval \<Rightarrow> 'v state \<Rightarrow> error + rid \<times> 'v state" where
  "wrap np x st =
     (case x of
        ResultV r \<Rightarrow>
          (if rclass (results st ! r) = NumpyR then Inr (r, st)
           else if rclass (results st ! r) = PythonR then Inr (r, st)
           else literal np x st)
      | OpV a out \<Rightarrow> Inr (out, st)
      | _ \<Rightarrow> literal np x st)"

section \<open>The scalar/tensor dispatcher: \<^verbatim>\<open>scalar_switch\<close>\<close>

text \<open>
  The test \<^verbatim>\<open>y.constant and not y.data.shape\<close>.  The right operand of \<^verbatim>\<open>and\<close> is only
  evaluated for a constant; it raises \<^verbatim>\<open>AttributeError\<close> when the data is not an
  array, and an empty shape is the false tuple \<^verbatim>\<open>()\<close>.
\<close>

definition constant_and_not_shape :: "'v state \<Rightarrow> rid \<Rightarrow> error + bool" where
  "constant_and_not_shape st y =
     (if constant_flag (results st ! y)
      then (case data (results st ! y) of
              UNCOMPUTED \<Rightarrow> Inl AttributeError
            | Ref a \<Rightarrow> (case heap_get st a of
                          Array dt sh es \<Rightarrow> Inr (sh = [])
                        | Object \<Rightarrow> Inl AttributeError))
      else Inr False)"

text \<open>
  A variant of a family (\<^verbatim>\<open>normal_f\<close>, \<^verbatim>\<open>scalar_f\<close>, \<^verbatim>\<open>scalar_f_reverse\<close>) is a callable
  on two Results: a function that returns an error or a value of some type \<open>'r\<close> and
  the new state.  \<^verbatim>\<open>scalar_f_reverse = None\<close> is \<open>None\<close>.
\<close>

type_synonym ('v, 'r) variant = "rid \<Rightarrow> rid \<Rightarrow> 'v state \<Rightarrow> error + 'r \<times> 'v state"

definition scalar_switch ::
  "'v numpy \<Rightarrow> ('v, 'r) variant \<Rightarrow> ('v, 'r) variant \<Rightarrow> ('v, 'r) variant option \<Rightarrow>
   'v pyval \<Rightarrow> 'v pyval \<Rightarrow> 'v state \<Rightarrow> error + 'r \<times> 'v state" where
  "scalar_switch np normal_f scalar_f scalar_f_reverse x y st =
     (case wrap np x st of
        Inl e \<Rightarrow> Inl e
      | Inr (x', st1) \<Rightarrow>
     (case wrap np y st1 of
        Inl e \<Rightarrow> Inl e
      | Inr (y', st2) \<Rightarrow>
     (case constant_and_not_shape st2 y' of
        Inl e \<Rightarrow> Inl e
      | Inr True \<Rightarrow> scalar_f x' y' st2
      | Inr False \<Rightarrow>
     (case constant_and_not_shape st2 x' of
        Inl e \<Rightarrow> Inl e
      | Inr True \<Rightarrow>
          (case scalar_f_reverse of
             Some f_reverse \<Rightarrow> f_reverse y' x' st2
           | None \<Rightarrow> Inl (TypeError ''You cannot do this operation on a scalar.''))
      | Inr False \<Rightarrow> normal_f x' y' st2))))"

text \<open>
  The dispatch tables of addition at the end of \<^verbatim>\<open>core.py\<close>.  Calling an operator
  class builds a node of the graph (\<^verbatim>\<open>gof.PythonOp.__new__\<close>); \<open>mk_node\<close> stands for
  it, applied to the name of the class.
\<close>

definition add ::
  "'v numpy \<Rightarrow> (string \<Rightarrow> ('v, 'r) variant) \<Rightarrow> 'v pyval \<Rightarrow> 'v pyval \<Rightarrow> 'v state \<Rightarrow> error + 'r \<times> 'v state" where
  "add np mk_node =
     scalar_switch np (mk_node ''add_elemwise'') (mk_node ''add_scalar'')
       (Some (mk_node ''add_scalar''))"

definition add_inplace ::
  "'v numpy \<Rightarrow> (string \<Rightarrow> ('v, 'r) variant) \<Rightarrow> 'v pyval \<Rightarrow> 'v pyval \<Rightarrow> 'v state \<Rightarrow> error + 'r \<times> 'v state" where
  "add_inplace np mk_node =
     scalar_switch np (mk_node ''add_elemwise_inplace'') (mk_node ''add_scalar_inplace'') None"

text \<open>
  For closed examples: a constructor that records the class and the two inputs of the
  node it is asked for, and a state with one Result, a \<^verbatim>\<open>NumpyR\<close> that is not constant
  and holds an array of three numbers.
\<close>

definition node :: "string \<Rightarrow> (int, string \<times> rid \<times> rid) variant" where
  "node cls x y st = Inr ((cls, x, y), st)"

definition tensor_state :: "int state" where
  "tensor_state =
     \<lparr>results = [\<lparr>rclass = NumpyR, data = Ref 0,
                   spec = Some (''numpy.ndarray'', ''float64'', Some [3]),
                   constant_flag = False, up_to_date = True\<rparr>],
      heap = [Array ''float64'' [3] [1, 2, 3]],
      literals_db = [], literals_id_db = []\<rparr>"

section \<open>Gradients: \<^verbatim>\<open>omega_op.update_gradient\<close>\<close>

text \<open>
  The accumulator \<^verbatim>\<open>grad_d\<close> is an object of \<^verbatim>\<open>gof\<close>, of an abstract type \<open>'g\<close>; its
  two operations \<^verbatim>\<open>grad_d[output]\<close> and \<^verbatim>\<open>grad_d.add(input, inputg)\<close> are parameters
  (\<open>getitem\<close> and \<open>add_grad\<close>), and so is the gradient rule \<^verbatim>\<open>self.grad\<close>.  A gradient is
  of an abstract type \<open>'a\<close>.  The rule is called on a list of arguments, each an input
  or a gradient, and returns an instance of \<^verbatim>\<open>gof.PythonR\<close>, a sequence, or any other
  object.  Neither \<^verbatim>\<open>NumpyR\<close> nor the source gives a Result a length, so \<^verbatim>\<open>len\<close> of
  anything but a sequence raises \<^verbatim>\<open>TypeError\<close>.  The three cases of \<open>grad_ret\<close>: a bare
  instance of \<^verbatim>\<open>gof.PythonR\<close> (of which \<^verbatim>\<open>NumpyR\<close> is a subclass), a sequence, and any
  other bare object.
\<close>

datatype 'a grad_arg = InputArg rid | GradArg 'a

datatype 'a grad_ret = PythonR_value 'a | Sequence "'a list" | Unsized 'a

definition py_len :: "'a grad_ret \<Rightarrow> error + nat" where
  "py_len v =
     (case v of
        Sequence gs \<Rightarrow> Inr (length gs)
      | _ \<Rightarrow> Inl (TypeError ''object has no len()''))"

text \<open>The list comprehension \<^verbatim>\<open>[grad_d[output] for output in self.outputs]\<close>.\<close>

fun getitems :: "('g \<Rightarrow> rid \<Rightarrow> error + 'a) \<Rightarrow> 'g \<Rightarrow> rid list \<Rightarrow> error + 'a list" where
  "getitems getitem grad_d [] = Inr []"
| "getitems getitem grad_d (output # rest) =
     (case getitem grad_d output of
        Inl e \<Rightarrow> Inl e
      | Inr g \<Rightarrow> (case getitems getitem grad_d rest of
                    Inl e \<Rightarrow> Inl e
                  | Inr gs \<Rightarrow> Inr (g # gs)))"

text \<open>
  The final loop, \<^verbatim>\<open>for input, inputg in zip(self.inputs, inputgs): grad_d.add(input, inputg)\<close>.
  The accumulator is mutated in place: what is returned is the accumulator as the
  loop leaves it and the exception, if there is one.
\<close>

fun add_all ::
  "('g \<Rightarrow> rid \<Rightarrow> 'a \<Rightarrow> error + 'g) \<Rightarrow> (rid \<times> 'a) list \<Rightarrow> 'g \<Rightarrow> 'g \<times> error option" where
  "add_all add_grad [] grad_d = (grad_d, None)"
| "add_all add_grad ((inp, inputg) # rest) grad_d =
     (case add_grad grad_d inp inputg of
        Inl e \<Rightarrow> (grad_d, Some e)
      | Inr grad_d' \<Rightarrow> add_all add_grad rest grad_d')"

text \<open>
  \<^verbatim>\<open>isinstance(inputgs, gof.PythonR)\<close>, and the items of what \<^verbatim>\<open>inputgs\<close> is when the
  loop starts: the list \<^verbatim>\<open>[inputgs]\<close> around a bare gradient, or the sequence itself.
\<close>

definition isinstance_PythonR :: "'a grad_ret \<Rightarrow> bool" where
  "isinstance_PythonR v = (case v of PythonR_value g \<Rightarrow> True | _ \<Rightarrow> False)"

definition items :: "'a grad_ret \<Rightarrow> 'a list" where
  "items v = (case v of PythonR_value g \<Rightarrow> [g] | Sequence gs \<Rightarrow> gs | Unsized g \<Rightarrow> [])"

definition update_gradient ::
  "('g \<Rightarrow> rid \<Rightarrow> error + 'a) \<Rightarrow> ('g \<Rightarrow> rid \<Rightarrow> 'a \<Rightarrow> error + 'g) \<Rightarrow>
   ('a grad_arg list \<Rightarrow> error + 'a grad_ret) \<Rightarrow> 'z omega_op_scheme \<Rightarrow> 'g \<Rightarrow> 'g \<times> error option" where
  "update_gradient getitem add_grad grad self grad_d =
     (case getitems getitem grad_d (outputs self) of
        Inl e \<Rightarrow> (grad_d, Some e)
      | Inr gs \<Rightarrow>
     (case grad (map InputArg (inputs self) @ map GradArg gs) of
        Inl e \<Rightarrow> (grad_d, Some e)
      | Inr inputgs \<Rightarrow>
          (if length (inputs self) = 1 \<and> isinstance_PythonR inputgs
           then add_all add_grad (zip (inputs self) (items inputgs)) grad_d
           else (case py_len inputgs of
                   Inl e \<Rightarrow> (grad_d, Some e)
                 | Inr n \<Rightarrow>
                     if n \<noteq> length (inputs self) then (grad_d, Some AssertionError)
                     else add_all add_grad (zip (inputs self) (items inputgs)) grad_d))))"

text \<open>
  For closed examples: an accumulator that is an association list from a Result to
  the list of the gradients added for it, and two rules, the one of \<^verbatim>\<open>neg\<close>, which
  returns a bare gradient, and the one of \<^verbatim>\<open>add_elemwise\<close>, which returns the pair
  \<^verbatim>\<open>gz, gz\<close>.  A gradient is named by a string.
\<close>

definition list_getitem :: "(rid \<times> string list) list \<Rightarrow> rid \<Rightarrow> error + string" where
  "list_getitem grad_d r =
     (case map_of grad_d r of
        Some (g # gs) \<Rightarrow> Inr g
      | _ \<Rightarrow> Inl (Exception ''no gradient''))"

definition list_add :: "(rid \<times> string list) list \<Rightarrow> rid \<Rightarrow> string \<Rightarrow> error + (rid \<times> string list) list" where
  "list_add grad_d r g = Inr (AList.update r (g # dict_get grad_d r) grad_d)"

definition neg_grad :: "string grad_arg list \<Rightarrow> error + string grad_ret" where
  "neg_grad args =
     (case args of
        [InputArg x, GradArg gz] \<Rightarrow> Inr (PythonR_value (''-'' @ gz))
      | _ \<Rightarrow> Inl (TypeError ''grad() takes exactly 2 arguments''))"

definition add_elemwise_grad :: "string grad_arg list \<Rightarrow> error + string grad_ret" where
  "add_elemwise_grad args =
     (case args of
        [InputArg x, InputArg y, GradArg gz] \<Rightarrow> Inr (Sequence [gz, gz])
      | _ \<Rightarrow> Inl (TypeError ''grad() takes exactly 3 arguments''))"

text \<open>
  The rule of \<^verbatim>\<open>ones_like\<close> and of \<^verbatim>\<open>zeros_like\<close>, \<^verbatim>\<open>def grad(x, gz): return UNDEFINED\<close>: it
  returns the sentinel \<^verbatim>\<open>UNDEFINED\<close> of \<^verbatim>\<open>gof\<close>, a bare object that is neither a
  \<^verbatim>\<open>PythonR\<close> nor a sequence.
\<close>

definition ones_like_grad :: "string grad_arg list \<Rightarrow> error + string grad_ret" where
  "ones_like_grad args =
     (case args of
        [InputArg x, GradArg gz] \<Rightarrow> Inr (Unsized ''UNDEFINED'')
      | _ \<Rightarrow> Inl (TypeError ''grad() takes exactly 2 arguments''))"

section \<open>Shape and dtype inference: \<^verbatim>\<open>upcast\<close> and \<^verbatim>\<open>elemwise._specs\<close>\<close>







text \<open>
  For closed examples: a numpy that promotes two different dtypes to \<^verbatim>\<open>float64\<close> and
  stores every number as it is (the numbers of the examples are small integers), and
  a state with two \<^verbatim>\<open>NumpyR\<close> inputs of shape \<open>(3,)\<close>, one of dtype \<^verbatim>\<open>float32\<close> and one of
  dtype \<^verbatim>\<open>float64\<close>, and a \<^verbatim>\<open>NumpyR\<close> output that is not computed yet.
\<close>

definition plain_numpy :: "int numpy" where
  "plain_numpy =
     \<lparr>zeros_dtype = (\<lambda>d. d),
      add_dtype = (\<lambda>d1 d2. if d1 = d2 then d1 else ''float64''),
      zeros_iadd = (\<lambda>d x. x),
      astype = (\<lambda>d1 d2 v. v),
      asarray_object = (\<lambda>a. Array ''object'' [] []),
      assign_other = (\<lambda>dst src. Inl ValueError),
      zero_dim_slice_error = IndexError\<rparr>"

text \<open>
  For closed examples of \<^verbatim>\<open>input\<close>: a numpy whose \<^verbatim>\<open>float64\<close> holds every integer up to
  \<open>2\<^sup>5\<^sup>3\<close> in absolute value and, of the integers between \<open>2\<^sup>5\<^sup>3\<close> and \<open>2\<^sup>5\<^sup>4\<close>, the even
  ones: an odd one is stored as its neighbour that is a multiple of 4 (round to
  nearest, ties to even).  The examples stay below \<open>2\<^sup>5\<^sup>4\<close>.
\<close>

definition float64_numpy :: "int numpy" where
  "float64_numpy =
     plain_numpy\<lparr>zeros_iadd := (\<lambda>d x.
        if d = ''float64'' \<and> 9007199254740992 < \<bar>x\<bar> \<and> x mod 2 = 1
        then (if (x + 1) mod 4 = 0 then x + 1 else x - 1)
        else x)\<rparr>"

definition two_tensor_state :: "int state" where
  "two_tensor_state =
     \<lparr>results =
        [\<lparr>rclass = NumpyR, data = Ref 0, spec = Some (''numpy.ndarray'', ''float32'', Some [3]),
          constant_flag = False, up_to_date = True\<rparr>,
         \<lparr>rclass = NumpyR, data = Ref 1, spec = Some (''numpy.ndarray'', ''float64'', Some [3]),
          constant_flag = False, up_to_date = True\<rparr>,
         \<lparr>rclass = NumpyR, data = UNCOMPUTED, spec = None,
          constant_flag = False, up_to_date = False\<rparr>],
      heap = [Array ''float32'' [3] [1, 2, 3], Array ''float64'' [3] [10, 20, 30]],
      literals_db = [], literals_id_db = []\<rparr>"

section \<open>In-place operators: \<^verbatim>\<open>NumpyR.set_value\<close>, \<^verbatim>\<open>elemwise.alloc\<close> and \<^verbatim>\<open>inplace_version\<close>\<close>

text \<open>
  \<^verbatim>\<open>numpy.asarray\<close> returns the very array it is given, and builds a new one from any
  other object.  \<^verbatim>\<open>NumpyR.set_value\<close> keeps the sentinel \<^verbatim>\<open>UNCOMPUTED\<close>, stores
  \<^verbatim>\<open>numpy.asarray(value)\<close> otherwise, refreshes the spec and sets \<^verbatim>\<open>up_to_date\<close>.
\<close>

definition asarray :: "'v numpy \<Rightarrow> addr \<Rightarrow> 'v state \<Rightarrow> addr \<times> 'v state" where
  "asarray np a st =
     (case heap_get st a of
        Array dt sh es \<Rightarrow> (a, st)
      | Object \<Rightarrow> heap_alloc (asarray_object np a) st)"

definition set_value :: "'v numpy \<Rightarrow> rid \<Rightarrow> handle \<Rightarrow> 'v state \<Rightarrow> 'v state" where
  "set_value np r v st =
     (let (h, st1) = (case v of
                        UNCOMPUTED \<Rightarrow> (UNCOMPUTED, st)
                      | Ref a \<Rightarrow> (let (a', st') = asarray np a st in (Ref a', st')));
          res = results st1 ! r
      in st1\<lparr>results := (results st1)
              [r := res\<lparr>data := h, spec := refresh_spec st1 h (spec res), up_to_date := True\<rparr>]\<rparr>)"

text \<open>
  \<^verbatim>\<open>elemwise.alloc\<close>.  \<open>python_op_alloc\<close> stands for \<^verbatim>\<open>gof.PythonOp.alloc\<close>, which is outside
  the repository: a parameter, applied to its except list.  The loop unpacks each
  value of the destroy map as a one-element sequence, which raises \<^verbatim>\<open>ValueError\<close> for
  any other length, and skips the outputs in \<^verbatim>\<open>except_list\<close>.  The dictionary is an
  association list, visited in its order.
\<close>

fun alloc_loop ::
  "'v numpy \<Rightarrow> rid list \<Rightarrow> (rid \<times> rid list) list \<Rightarrow> 'v state \<Rightarrow> 'v state \<times> error option" where
  "alloc_loop np except_list [] st = (st, None)"
| "alloc_loop np except_list ((output, ins) # rest) st =
     (case ins of
        [inp] \<Rightarrow>
          if output \<notin> set except_list
          then alloc_loop np except_list rest (set_value np output (data (results st ! inp)) st)
          else alloc_loop np except_list rest st
      | _ \<Rightarrow> (st, Some ValueError))"

definition alloc ::
  "(rid list \<Rightarrow> 'v state \<Rightarrow> error + 'v state) \<Rightarrow> 'v numpy \<Rightarrow> elemwise \<Rightarrow> rid list \<Rightarrow>
   'v state \<Rightarrow> 'v state \<times> error option" where
  "alloc python_op_alloc np self except_list st =
     (let dmap = (if is_inplace self then destroy_map self else []) in
      case python_op_alloc (except_list @ map fst dmap) st of
        Inl e \<Rightarrow> (st, Some e)
      | Inr st1 \<Rightarrow> alloc_loop np except_list dmap st1)"

text \<open>
  The class \<^verbatim>\<open>C\<close> that \<^verbatim>\<open>inplace_version(dmap)\<close> derives.  Its \<^verbatim>\<open>destroy_map\<close> starts from
  the destroy map of the base class (empty when the base is not in place) and sends
  \<^verbatim>\<open>self.outputs[output]\<close> to \<^verbatim>\<open>[self.inputs[input]]\<close> for every item of \<^verbatim>\<open>dmap\<close>, whose
  keys and values are positions.
\<close>

fun C_destroy_map ::
  "elemwise \<Rightarrow> (nat \<times> nat) list \<Rightarrow> (rid \<times> rid list) list \<Rightarrow> error + (rid \<times> rid list) list" where
  "C_destroy_map self [] ret = Inr ret"
| "C_destroy_map self ((output, inp) # rest) ret =
     (case py_nth (outputs self) output of
        Inl e \<Rightarrow> Inl e
      | Inr out \<Rightarrow>
          (case py_nth (inputs self) inp of
             Inl e \<Rightarrow> Inl e
           | Inr i \<Rightarrow> C_destroy_map self rest (AList.update out [i] ret)))"

text \<open>
  What an interpreted implementation returns: one object, a list or a tuple of
  objects, each known by its handle.
\<close>

datatype impl_ret = One handle | PyList "handle list" | PyTuple "handle list"

definition ret_list :: "impl_ret \<Rightarrow> handle list" where
  "ret_list r = (case r of One h \<Rightarrow> [h] | PyList hs \<Rightarrow> hs | PyTuple hs \<Rightarrow> hs)"

text \<open>
  The slice assignment \<^verbatim>\<open>a[:] = v\<close>.  An array of dimension zero cannot be sliced:
  numpy raises; the objects of the model other than arrays have no item
  assignment.  When \<open>v\<close> is an array of the shape of \<open>a\<close>, its elements are stored, each
  converted to the dtype of \<open>a\<close>; every other case is numpy's.
\<close>

definition setslice :: "'v numpy \<Rightarrow> handle \<Rightarrow> handle \<Rightarrow> 'v state \<Rightarrow> error + 'v state" where
  "setslice np a v st =
     (case a of
        UNCOMPUTED \<Rightarrow> Inl (TypeError ''object does not support item assignment'')
      | Ref pa \<Rightarrow>
          (case heap_get st pa of
             Object \<Rightarrow> Inl (TypeError ''object does not support item assignment'')
           | Array dt sh es \<Rightarrow>
               if sh = [] then Inl (zero_dim_slice_error np)
               else
                 (case (case v of
                          UNCOMPUTED \<Rightarrow> assign_other np (Array dt sh es) Object
                        | Ref pv \<Rightarrow>
                            (case heap_get st pv of
                               Array dt' sh' es' \<Rightarrow>
                                 if sh' = sh then Inr (map (astype np dt' dt) es')
                                 else assign_other np (Array dt sh es) (Array dt' sh' es')
                             | Object \<Rightarrow> assign_other np (Array dt sh es) Object)) of
                    Inl e \<Rightarrow> Inl e
                  | Inr es' \<Rightarrow> Inr (st\<lparr>heap := (heap st)[pa := Array dt sh es']\<rparr>))))"

text \<open>
  The loop of \<^verbatim>\<open>C._impl\<close> over \<^verbatim>\<open>dmap.items()\<close>.  \<open>is_tuple\<close> tells that \<^verbatim>\<open>res\<close> is a tuple:
  \<^verbatim>\<open>copy.copy\<close> of a tuple is a tuple, and the assignment \<^verbatim>\<open>res[output] = a\<close> to a tuple
  raises \<^verbatim>\<open>TypeError\<close>, after the slice assignment has been done.  The heap is
  mutated in place: what is returned is the outcome and the state as the loop
  leaves it.
\<close>

fun copy_back ::
  "'v numpy \<Rightarrow> rid list \<Rightarrow> bool \<Rightarrow> (nat \<times> nat) list \<Rightarrow> handle list \<Rightarrow> 'v state \<Rightarrow>
   (error + handle list) \<times> 'v state" where
  "copy_back np ins is_tuple [] res st = (Inr res, st)"
| "copy_back np ins is_tuple ((output, inp) # rest) res st =
     (case py_nth ins inp of
        Inl e \<Rightarrow> (Inl e, st)
      | Inr r \<Rightarrow>
          (let a = data (results st ! r) in
           case py_nth res output of
             Inl e \<Rightarrow> (Inl e, st)
           | Inr v \<Rightarrow>
               (case setslice np a v st of
                  Inl e \<Rightarrow> (Inl e, st)
                | Inr st' \<Rightarrow>
                    if is_tuple
                    then (Inl (TypeError ''tuple object does not support item assignment''), st')
                    else copy_back np ins is_tuple rest (res[output := a]) st')))"

text \<open>
  \<^verbatim>\<open>C._impl\<close>.  \<open>user_impl\<close> is the test \<^verbatim>\<open>self.impl is not cls.impl\<close> and \<open>cls_impl\<close> the call
  \<^verbatim>\<open>cls._impl(self)\<close>, a method of \<^verbatim>\<open>gof.PythonOp\<close> that runs \<^verbatim>\<open>self.impl\<close> on the data of
  the inputs: a parameter, from a state to an outcome and a state.
\<close>

definition C_impl ::
  "'v numpy \<Rightarrow> bool \<Rightarrow> ('v state \<Rightarrow> (error + impl_ret) \<times> 'v state) \<Rightarrow> (nat \<times> nat) list \<Rightarrow>
   elemwise \<Rightarrow> 'v state \<Rightarrow> (error + impl_ret) \<times> 'v state" where
  "C_impl np user_impl cls_impl dmap self st =
     (if user_impl then cls_impl st
      else
        (case cls_impl st of
           (Inl e, st1) \<Rightarrow> (Inl e, st1)
         | (Inr r, st1) \<Rightarrow>
             (let is_tuple = (case r of PyTuple hs \<Rightarrow> True | _ \<Rightarrow> False);
                  res = ret_list r
              in case copy_back np (inputs self) is_tuple dmap res st1 of
                   (Inl e, st2) \<Rightarrow> (Inl e, st2)
                 | (Inr res', st2) \<Rightarrow>
                     (case res' of
                        [h] \<Rightarrow> (Inr (One h), st2)
                      | _ \<Rightarrow> (Inr (if is_tuple then PyTuple res' else PyList res'), st2)))))"


text \<open>The data of a Result is \<^verbatim>\<open>UNCOMPUTED\<close> or an array: what \<^verbatim>\<open>NumpyR.set_value\<close> leaves.\<close>

definition array_or_uncomputed :: "'v state \<Rightarrow> handle \<Rightarrow> bool" where
  "array_or_uncomputed st h =
     (case h of
        UNCOMPUTED \<Rightarrow> True
      | Ref a \<Rightarrow> (case heap_get st a of Array dt sh es \<Rightarrow> True | Object \<Rightarrow> False))"

text \<open>
  For closed examples: the base implementation of \<^verbatim>\<open>add_elemwise\<close> run in
  \<open>two_tensor_state\<close>, which returns a new array of dtype \<^verbatim>\<open>float64\<close> holding the sums.
\<close>

definition add_impl :: "int state \<Rightarrow> (error + impl_ret) \<times> int state" where
  "add_impl st =
     (let (a, st') = heap_alloc (Array ''float64'' [3] [11, 22, 33]) st
      in (Inr (One (Ref a)), st'))"







text \<open>
  An implementation that returns a tuple of two new arrays, as the implementation of
  an operator with two outputs does (\<^verbatim>\<open>minmax\<close> returns \<^verbatim>\<open>x.min, x.max\<close>).
\<close>

definition pair_impl :: "int state \<Rightarrow> (error + impl_ret) \<times> int state" where
  "pair_impl st =
     (let (a, st1) = heap_alloc (Array ''float32'' [3] [2, 4, 6]) st;
          (b, st2) = heap_alloc (Array ''float32'' [3] [3, 6, 9]) st1
      in (Inr (PyTuple [Ref a, Ref b]), st2))"

section \<open>Properties of the loop generator\<close>

lemma render_check_stmts:
  "concat (map render_stmt (check_stmts vs)) = contiguity_check vs"
  by (induction vs) (simp_all add: check_stmts_def contiguity_check_def)

lemma foldl_exec_stmt:
  "foldl (exec_stmt isc isf) fl (check_stmts vs) =
     \<lparr>all_c_contiguous = (all_c_contiguous fl \<and> list_all isc vs),
      all_f_contiguous = (all_f_contiguous fl \<and> list_all isf vs)\<rparr>"
proof (induction vs arbitrary: fl)
  case Nil
  then show ?case by (simp add: check_stmts_def)
next
  case (Cons v vs)
  have step: "check_stmts (v # vs) = AndC v # AndF v # check_stmts vs"
    by (simp add: check_stmts_def)
  show ?case
    unfolding step using Cons.IH by simp
qed

lemma selected_loop_iff:
  "selected_loop isc isf vs = Contiguous \<longleftrightarrow> list_all isc vs \<or> list_all isf vs"
  by (simp add: selected_loop_def run_check_def foldl_exec_stmt Let_def)


lemma concat_map_Nil: "concat (map (\<lambda>v. []) xs) = []"
  by (induction xs) simp_all

lemma contiguous_loop_text:
  "contiguous_loop inloop loop_vars writable_loop_vars aliases =
             ''\<newline>    '' @
             concat (map (\<lambda>v. v @ ''_dtype* __restrict__ '' @ v @ ''_iter = ('' @ v @
                            ''_dtype*)PyArray_DATA('' @ v @ '');\<newline>'')
                       (loop_vars @ writable_loop_vars)) @
             ''\<newline>    while (__elemwise_size--) {\<newline>        '' @
             concat (map (\<lambda>v. v @ ''_dtype '' @ v @ ''_i = *'' @ v @ ''_iter;\<newline>'') loop_vars) @
             ''\<newline>        '' @
             concat (map (\<lambda>v. v @ ''_dtype& '' @ v @ ''_i = *'' @ v @ ''_iter;\<newline>'')
                       writable_loop_vars) @
             ''\<newline>        '' @
             concat (map (\<lambda>(v1, v2). v1 @ ''_dtype '' @ v1 @ ''_i = '' @ v2 @ ''_i;\<newline>'') aliases) @
             ''\<newline>        '' @ inloop @ ''\<newline>        '' @
             concat (map (\<lambda>v. v @ ''_iter++;\<newline>'') (loop_vars @ writable_loop_vars)) @
             ''\<newline>    }\<newline>    '' @ ''\<newline>    ''"
  unfolding contiguous_loop_def elemwise_loopcode_def Let_def idefs_def odefs_def aliasdefs_def
    contiguous_init_def[abs_def] contiguous_next_def[abs_def] contiguous_acquire_def
    contiguous_cleanup_def[abs_def]
  by (simp add: concat_map_Nil)

lemma general_loop_text:
  "general_loop inloop loop_vars writable_loop_vars aliases =
             ''\<newline>    '' @
             concat (map (\<lambda>v. ''PyArrayIterObject* '' @ v @
                            ''_iter = (PyArrayIterObject*)PyArray_IterNew((PyObject*)'' @ v @ '');\<newline>'')
                       (loop_vars @ writable_loop_vars)) @
             ''\<newline>    while (__elemwise_size--) {\<newline>        '' @
             concat (map (\<lambda>v. v @ ''_dtype '' @ v @ ''_i = *(('' @ v @ ''_dtype*)'' @ v @
                            ''_iter->dataptr);\<newline>'') loop_vars) @
             ''\<newline>        '' @
             concat (map (\<lambda>v. v @ ''_dtype& '' @ v @ ''_i = *(('' @ v @ ''_dtype*)'' @ v @
                            ''_iter->dataptr);\<newline>'') writable_loop_vars) @
             ''\<newline>        '' @
             concat (map (\<lambda>(v1, v2). v1 @ ''_dtype '' @ v1 @ ''_i = '' @ v2 @ ''_i;\<newline>'') aliases) @
             ''\<newline>        '' @ inloop @ ''\<newline>        '' @
             concat (map (\<lambda>v. ''PyArray_ITER_NEXT('' @ v @ ''_iter);\<newline>'')
                       (loop_vars @ writable_loop_vars)) @
             ''\<newline>    }\<newline>    '' @
             concat (map (\<lambda>v. ''if ('' @ v @ ''_iter) Py_DECREF('' @ v @ ''_iter);\<newline>'')
                       (loop_vars @ writable_loop_vars)) @
             ''\<newline>    ''"
  unfolding general_loop_def elemwise_loopcode_def Let_def idefs_def odefs_def aliasdefs_def
    general_init_def[abs_def] general_next_def[abs_def] general_acquire_def
    general_cleanup_def[abs_def]
  by simp

lemma elemwise_wrap_text:
  assumes "loop_vars @ writable_loop_vars \<noteq> []"
  shows "elemwise_wrap beforeloop inloop afterloop loop_vars writable_loop_vars aliases =
           Inr (''\<newline>    npy_intp __elemwise_size = PyArray_SIZE('' @
                  hd (loop_vars @ writable_loop_vars) @ '');\<newline>    '' @
                beforeloop @
                ''\<newline>    bool all_c_contiguous = 1;\<newline>    bool all_f_contiguous = 1;\<newline>    '' @
                concat (map render_stmt (check_stmts (loop_vars @ writable_loop_vars))) @
                ''\<newline>    if (all_c_contiguous || all_f_contiguous) {\<newline>        '' @
                contiguous_loop inloop loop_vars writable_loop_vars aliases @
                ''\<newline>    }\<newline>    else {\<newline>        '' @
                general_loop inloop loop_vars writable_loop_vars aliases @
                ''\<newline>    }\<newline>    '' @ afterloop @ ''\<newline>    '')"
proof -
  obtain v1 rest where vs: "loop_vars @ writable_loop_vars = v1 # rest"
    using assms by (cases "loop_vars @ writable_loop_vars") auto
  show ?thesis
    unfolding elemwise_wrap_def Let_def vs render_check_stmts list.case by simp
qed

lemma selected_loop_flags:
  "selected_loop (\<lambda>v. PyArray_ISCARRAY (fl v)) (\<lambda>v. PyArray_ISFARRAY (fl v)) vs = Contiguous \<longleftrightarrow>
     (\<forall>v \<in> set vs. c_contiguous (fl v) \<and> aligned (fl v) \<and> writeable (fl v) \<and> notswapped (fl v)) \<or>
     (\<forall>v \<in> set vs. f_contiguous (fl v) \<and> aligned (fl v) \<and> writeable (fl v) \<and> notswapped (fl v))"
  by (simp add: selected_loop_iff list_all_iff PyArray_ISCARRAY_def PyArray_ISFARRAY_def)

text \<open>
  Claim C4 (as amended).  With no loop variable at all \<^verbatim>\<open>elemwise_wrap\<close> raises
  \<^verbatim>\<open>IndexError\<close>.  Whenever there is a loop variable, it returns the kernel written out
  below: the two flags are set to 1, the contiguity statements of every loop variable
  (read and writable) follow, and one \<^verbatim>\<open>if\<close> on the two flags holds the contiguous loop
  in its first branch and the general loop in its \<^verbatim>\<open>else\<close> branch, so both loops are in
  every kernel.  The contiguous loop sets a pointer \<^verbatim>\<open>v_iter\<close> to the data of every loop
  variable and, in a \<^verbatim>\<open>while\<close> loop over \<^verbatim>\<open>__elemwise_size\<close>, binds \<^verbatim>\<open>v_i\<close> to \<^verbatim>\<open>*v_iter\<close>
  (by reference for a writable variable), binds the aliases, runs the body and
  increments every pointer.  The general loop does the same through a
  \<^verbatim>\<open>PyArrayIterObject\<close> for every loop variable, read at \<^verbatim>\<open>v_iter->dataptr\<close>, advanced by
  \<^verbatim>\<open>PyArray_ITER_NEXT\<close> and released after the loop.  Run on any answers of the two
  numpy macros, the guard selects the contiguous loop exactly when
  \<^verbatim>\<open>PyArray_ISCARRAY\<close> holds of every loop variable or \<^verbatim>\<open>PyArray_ISFARRAY\<close> holds of every
  loop variable, and the general loop in every other case.  With the macros as numpy
  defines them, that is: exactly when all loop variables are C-contiguous, aligned,
  writeable and in native byte order, or all are F-contiguous, aligned, writeable and
  in native byte order.  (Contiguity alone does not select the contiguous loop:
  \<open>elemwise_wrap_dual_path_counterexample\<close>.)
\<close>

theorem elemwise_wrap_dual_path:
  "(loop_vars @ writable_loop_vars = [] \<longrightarrow>
      elemwise_wrap beforeloop inloop afterloop loop_vars writable_loop_vars aliases =
        Inl IndexError)
   \<and> (loop_vars @ writable_loop_vars \<noteq> [] \<longrightarrow>
      elemwise_wrap beforeloop inloop afterloop loop_vars writable_loop_vars aliases =
        Inr (''\<newline>    npy_intp __elemwise_size = PyArray_SIZE('' @
               hd (loop_vars @ writable_loop_vars) @ '');\<newline>    '' @
             beforeloop @
             ''\<newline>    bool all_c_contiguous = 1;\<newline>    bool all_f_contiguous = 1;\<newline>    '' @
             concat (map render_stmt (check_stmts (loop_vars @ writable_loop_vars))) @
             ''\<newline>    if (all_c_contiguous || all_f_contiguous) {\<newline>        '' @
             ''\<newline>    '' @
             concat (map (\<lambda>v. v @ ''_dtype* __restrict__ '' @ v @ ''_iter = ('' @ v @
                            ''_dtype*)PyArray_DATA('' @ v @ '');\<newline>'')
                       (loop_vars @ writable_loop_vars)) @
             ''\<newline>    while (__elemwise_size--) {\<newline>        '' @
             concat (map (\<lambda>v. v @ ''_dtype '' @ v @ ''_i = *'' @ v @ ''_iter;\<newline>'') loop_vars) @
             ''\<newline>        '' @
             concat (map (\<lambda>v. v @ ''_dtype& '' @ v @ ''_i = *'' @ v @ ''_iter;\<newline>'')
                       writable_loop_vars) @
             ''\<newline>        '' @
             concat (map (\<lambda>(v1, v2). v1 @ ''_dtype '' @ v1 @ ''_i = '' @ v2 @ ''_i;\<newline>'') aliases) @
             ''\<newline>        '' @ inloop @ ''\<newline>        '' @
             concat (map (\<lambda>v. v @ ''_iter++;\<newline>'') (loop_vars @ writable_loop_vars)) @
             ''\<newline>    }\<newline>    '' @ ''\<newline>    '' @
             ''\<newline>    }\<newline>    else {\<newline>        '' @
             ''\<newline>    '' @
             concat (map (\<lambda>v. ''PyArrayIterObject* '' @ v @
                            ''_iter = (PyArrayIterObject*)PyArray_IterNew((PyObject*)'' @ v @ '');\<newline>'')
                       (loop_vars @ writable_loop_vars)) @
             ''\<newline>    while (__elemwise_size--) {\<newline>        '' @
             concat (map (\<lambda>v. v @ ''_dtype '' @ v @ ''_i = *(('' @ v @ ''_dtype*)'' @ v @
                            ''_iter->dataptr);\<newline>'') loop_vars) @
             ''\<newline>        '' @
             concat (map (\<lambda>v. v @ ''_dtype& '' @ v @ ''_i = *(('' @ v @ ''_dtype*)'' @ v @
                            ''_iter->dataptr);\<newline>'') writable_loop_vars) @
             ''\<newline>        '' @
             concat (map (\<lambda>(v1, v2). v1 @ ''_dtype '' @ v1 @ ''_i = '' @ v2 @ ''_i;\<newline>'') aliases) @
             ''\<newline>        '' @ inloop @ ''\<newline>        '' @
             concat (map (\<lambda>v. ''PyArray_ITER_NEXT('' @ v @ ''_iter);\<newline>'')
                       (loop_vars @ writable_loop_vars)) @
             ''\<newline>    }\<newline>    '' @
             concat (map (\<lambda>v. ''if ('' @ v @ ''_iter) Py_DECREF('' @ v @ ''_iter);\<newline>'')
                       (loop_vars @ writable_loop_vars)) @
             ''\<newline>    '' @
             ''\<newline>    }\<newline>    '' @ afterloop @ ''\<newline>    ''))
       \<and> (selected_loop iscarray isfarray (loop_vars @ writable_loop_vars) = Contiguous \<longleftrightarrow>
            (\<forall>v \<in> set (loop_vars @ writable_loop_vars). iscarray v) \<or>
            (\<forall>v \<in> set (loop_vars @ writable_loop_vars). isfarray v))
       \<and> (selected_loop iscarray isfarray (loop_vars @ writable_loop_vars) = General \<longleftrightarrow>
            \<not> ((\<forall>v \<in> set (loop_vars @ writable_loop_vars). iscarray v) \<or>
               (\<forall>v \<in> set (loop_vars @ writable_loop_vars). isfarray v)))
       \<and> (selected_loop (\<lambda>v. PyArray_ISCARRAY (fl v)) (\<lambda>v. PyArray_ISFARRAY (fl v))
              (loop_vars @ writable_loop_vars) = Contiguous \<longleftrightarrow>
            (\<forall>v \<in> set (loop_vars @ writable_loop_vars).
               c_contiguous (fl v) \<and> aligned (fl v) \<and> writeable (fl v) \<and> notswapped (fl v)) \<or>
            (\<forall>v \<in> set (loop_vars @ writable_loop_vars).
               f_contiguous (fl v) \<and> aligned (fl v) \<and> writeable (fl v) \<and> notswapped (fl v)))"
proof -
  have e: "loop_vars @ writable_loop_vars = [] \<longrightarrow>
      elemwise_wrap beforeloop inloop afterloop loop_vars writable_loop_vars aliases =
        Inl IndexError"
    by (simp add: elemwise_wrap_def)
  have k: "loop_vars @ writable_loop_vars \<noteq> [] \<longrightarrow>
      elemwise_wrap beforeloop inloop afterloop loop_vars writable_loop_vars aliases =
        Inr (''\<newline>    npy_intp __elemwise_size = PyArray_SIZE('' @
               hd (loop_vars @ writable_loop_vars) @ '');\<newline>    '' @
             beforeloop @
             ''\<newline>    bool all_c_contiguous = 1;\<newline>    bool all_f_contiguous = 1;\<newline>    '' @
             concat (map render_stmt (check_stmts (loop_vars @ writable_loop_vars))) @
             ''\<newline>    if (all_c_contiguous || all_f_contiguous) {\<newline>        '' @
             ''\<newline>    '' @
             concat (map (\<lambda>v. v @ ''_dtype* __restrict__ '' @ v @ ''_iter = ('' @ v @
                            ''_dtype*)PyArray_DATA('' @ v @ '');\<newline>'')
                       (loop_vars @ writable_loop_vars)) @
             ''\<newline>    while (__elemwise_size--) {\<newline>        '' @
             concat (map (\<lambda>v. v @ ''_dtype '' @ v @ ''_i = *'' @ v @ ''_iter;\<newline>'') loop_vars) @
             ''\<newline>        '' @
             concat (map (\<lambda>v. v @ ''_dtype& '' @ v @ ''_i = *'' @ v @ ''_iter;\<newline>'')
                       writable_loop_vars) @
             ''\<newline>        '' @
             concat (map (\<lambda>(v1, v2). v1 @ ''_dtype '' @ v1 @ ''_i = '' @ v2 @ ''_i;\<newline>'') aliases) @
             ''\<newline>        '' @ inloop @ ''\<newline>        '' @
             concat (map (\<lambda>v. v @ ''_iter++;\<newline>'') (loop_vars @ writable_loop_vars)) @
             ''\<newline>    }\<newline>    '' @ ''\<newline>    '' @
             ''\<newline>    }\<newline>    else {\<newline>        '' @
             ''\<newline>    '' @
             concat (map (\<lambda>v. ''PyArrayIterObject* '' @ v @
                            ''_iter = (PyArrayIterObject*)PyArray_IterNew((PyObject*)'' @ v @ '');\<newline>'')
                       (loop_vars @ writable_loop_vars)) @
             ''\<newline>    while (__elemwise_size--) {\<newline>        '' @
             concat (map (\<lambda>v. v @ ''_dtype '' @ v @ ''_i = *(('' @ v @ ''_dtype*)'' @ v @
                            ''_iter->dataptr);\<newline>'') loop_vars) @
             ''\<newline>        '' @
             concat (map (\<lambda>v. v @ ''_dtype& '' @ v @ ''_i = *(('' @ v @ ''_dtype*)'' @ v @
                            ''_iter->dataptr);\<newline>'') writable_loop_vars) @
             ''\<newline>        '' @
             concat (map (\<lambda>(v1, v2). v1 @ ''_dtype '' @ v1 @ ''_i = '' @ v2 @ ''_i;\<newline>'') aliases) @
             ''\<newline>        '' @ inloop @ ''\<newline>        '' @
             concat (map (\<lambda>v. ''PyArray_ITER_NEXT('' @ v @ ''_iter);\<newline>'')
                       (loop_vars @ writable_loop_vars)) @
             ''\<newline>    }\<newline>    '' @
             concat (map (\<lambda>v. ''if ('' @ v @ ''_iter) Py_DECREF('' @ v @ ''_iter);\<newline>'')
                       (loop_vars @ writable_loop_vars)) @
             ''\<newline>    '' @
             ''\<newline>    }\<newline>    '' @ afterloop @ ''\<newline>    '')"
    using elemwise_wrap_text[of loop_vars writable_loop_vars beforeloop inloop afterloop aliases]
    by (simp add: contiguous_loop_text general_loop_text)
  have sel: "selected_loop iscarray isfarray vs = Contiguous \<longleftrightarrow>
               (\<forall>v \<in> set vs. iscarray v) \<or> (\<forall>v \<in> set vs. isfarray v)" for vs
    by (simp add: selected_loop_iff list_all_iff)
  have gen: "selected_loop iscarray isfarray vs = General \<longleftrightarrow>
               selected_loop iscarray isfarray vs \<noteq> Contiguous" for vs
    by (cases "selected_loop iscarray isfarray vs") simp_all
  note fl = selected_loop_flags[of fl "loop_vars @ writable_loop_vars"]
  show ?thesis
    by (intro conjI) (fact e k fl | simp only: sel gen)+
qed

theorem elemwise_wrap_dual_path_witness:
  "elemwise_wrap [] ''z_i = x_i + y_i;'' [] [''x'', ''y''] [''z''] [] = Inr (
        ''\<newline>'' @
        ''    npy_intp __elemwise_size = PyArray_SIZE(x);\<newline>'' @
        ''    \<newline>'' @
        ''    bool all_c_contiguous = 1;\<newline>'' @
        ''    bool all_f_contiguous = 1;\<newline>'' @
        ''    all_c_contiguous &= PyArray_ISCARRAY(x);\<newline>'' @
        ''all_f_contiguous &= PyArray_ISFARRAY(x);\<newline>'' @
        ''all_c_contiguous &= PyArray_ISCARRAY(y);\<newline>'' @
        ''all_f_contiguous &= PyArray_ISFARRAY(y);\<newline>'' @
        ''all_c_contiguous &= PyArray_ISCARRAY(z);\<newline>'' @
        ''all_f_contiguous &= PyArray_ISFARRAY(z);\<newline>'' @
        ''\<newline>'' @
        ''    if (all_c_contiguous || all_f_contiguous) {\<newline>'' @
        ''        \<newline>'' @
        ''    x_dtype* __restrict__ x_iter = (x_dtype*)PyArray_DATA(x);\<newline>'' @
        ''y_dtype* __restrict__ y_iter = (y_dtype*)PyArray_DATA(y);\<newline>'' @
        ''z_dtype* __restrict__ z_iter = (z_dtype*)PyArray_DATA(z);\<newline>'' @
        ''\<newline>'' @
        ''    while (__elemwise_size--) {\<newline>'' @
        ''        x_dtype x_i = *x_iter;\<newline>'' @
        ''y_dtype y_i = *y_iter;\<newline>'' @
        ''\<newline>'' @
        ''        z_dtype& z_i = *z_iter;\<newline>'' @
        ''\<newline>'' @
        ''        \<newline>'' @
        ''        z_i = x_i + y_i;\<newline>'' @
        ''        x_iter++;\<newline>'' @
        ''y_iter++;\<newline>'' @
        ''z_iter++;\<newline>'' @
        ''\<newline>'' @
        ''    }\<newline>'' @
        ''    \<newline>'' @
        ''    \<newline>'' @
        ''    }\<newline>'' @
        ''    else {\<newline>'' @
        ''        \<newline>'' @
        ''    PyArrayIterObject* x_iter = (PyArrayIterObject*)PyArray_IterNew((PyObject*)x);\<newline>'' @
        ''PyArrayIterObject* y_iter = (PyArrayIterObject*)PyArray_IterNew((PyObject*)y);\<newline>'' @
        ''PyArrayIterObject* z_iter = (PyArrayIterObject*)PyArray_IterNew((PyObject*)z);\<newline>'' @
        ''\<newline>'' @
        ''    while (__elemwise_size--) {\<newline>'' @
        ''        x_dtype x_i = *((x_dtype*)x_iter->dataptr);\<newline>'' @
        ''y_dtype y_i = *((y_dtype*)y_iter->dataptr);\<newline>'' @
        ''\<newline>'' @
        ''        z_dtype& z_i = *((z_dtype*)z_iter->dataptr);\<newline>'' @
        ''\<newline>'' @
        ''        \<newline>'' @
        ''        z_i = x_i + y_i;\<newline>'' @
        ''        PyArray_ITER_NEXT(x_iter);\<newline>'' @
        ''PyArray_ITER_NEXT(y_iter);\<newline>'' @
        ''PyArray_ITER_NEXT(z_iter);\<newline>'' @
        ''\<newline>'' @
        ''    }\<newline>'' @
        ''    if (x_iter) Py_DECREF(x_iter);\<newline>'' @
        ''if (y_iter) Py_DECREF(y_iter);\<newline>'' @
        ''if (z_iter) Py_DECREF(z_iter);\<newline>'' @
        ''\<newline>'' @
        ''    \<newline>'' @
        ''    }\<newline>'' @
        ''    \<newline>'' @
        ''    '')
   \<and> elemwise_wrap [] ''z_i = x_i + y_i;'' [] [] [] [] = Inl IndexError
   \<and> selected_loop (\<lambda>v. v \<noteq> ''y'') (\<lambda>v. v = ''y'') [''x'', ''y'', ''z''] = General
   \<and> selected_loop (\<lambda>v. False) (\<lambda>v. True) [''x'', ''y'', ''z''] = Contiguous
   \<and> selected_loop
        (\<lambda>v. PyArray_ISCARRAY \<lparr>c_contiguous = True, f_contiguous = False, aligned = True,
                                  writeable = True, notswapped = True\<rparr>)
        (\<lambda>v. PyArray_ISFARRAY \<lparr>c_contiguous = True, f_contiguous = False, aligned = True,
                                  writeable = True, notswapped = True\<rparr>)
        [''x'', ''y'', ''z''] = Contiguous"
proof -
  note t = elemwise_wrap_dual_path[of "[''x'', ''y'']" "[''z'']" "[]" "''z_i = x_i + y_i;''" "[]" "[]"]
  have k: "elemwise_wrap [] ''z_i = x_i + y_i;'' [] [''x'', ''y''] [''z''] [] = Inr (
        ''\<newline>'' @
        ''    npy_intp __elemwise_size = PyArray_SIZE(x);\<newline>'' @
        ''    \<newline>'' @
        ''    bool all_c_contiguous = 1;\<newline>'' @
        ''    bool all_f_contiguous = 1;\<newline>'' @
        ''    all_c_contiguous &= PyArray_ISCARRAY(x);\<newline>'' @
        ''all_f_contiguous &= PyArray_ISFARRAY(x);\<newline>'' @
        ''all_c_contiguous &= PyArray_ISCARRAY(y);\<newline>'' @
        ''all_f_contiguous &= PyArray_ISFARRAY(y);\<newline>'' @
        ''all_c_contiguous &= PyArray_ISCARRAY(z);\<newline>'' @
        ''all_f_contiguous &= PyArray_ISFARRAY(z);\<newline>'' @
        ''\<newline>'' @
        ''    if (all_c_contiguous || all_f_contiguous) {\<newline>'' @
        ''        \<newline>'' @
        ''    x_dtype* __restrict__ x_iter = (x_dtype*)PyArray_DATA(x);\<newline>'' @
        ''y_dtype* __restrict__ y_iter = (y_dtype*)PyArray_DATA(y);\<newline>'' @
        ''z_dtype* __restrict__ z_iter = (z_dtype*)PyArray_DATA(z);\<newline>'' @
        ''\<newline>'' @
        ''    while (__elemwise_size--) {\<newline>'' @
        ''        x_dtype x_i = *x_iter;\<newline>'' @
        ''y_dtype y_i = *y_iter;\<newline>'' @
        ''\<newline>'' @
        ''        z_dtype& z_i = *z_iter;\<newline>'' @
        ''\<newline>'' @
        ''        \<newline>'' @
        ''        z_i = x_i + y_i;\<newline>'' @
        ''        x_iter++;\<newline>'' @
        ''y_iter++;\<newline>'' @
        ''z_iter++;\<newline>'' @
        ''\<newline>'' @
        ''    }\<newline>'' @
        ''    \<newline>'' @
        ''    \<newline>'' @
        ''    }\<newline>'' @
        ''    else {\<newline>'' @
        ''        \<newline>'' @
        ''    PyArrayIterObject* x_iter = (PyArrayIterObject*)PyArray_IterNew((PyObject*)x);\<newline>'' @
        ''PyArrayIterObject* y_iter = (PyArrayIterObject*)PyArray_IterNew((PyObject*)y);\<newline>'' @
        ''PyArrayIterObject* z_iter = (PyArrayIterObject*)PyArray_IterNew((PyObject*)z);\<newline>'' @
        ''\<newline>'' @
        ''    while (__elemwise_size--) {\<newline>'' @
        ''        x_dtype x_i = *((x_dtype*)x_iter->dataptr);\<newline>'' @
        ''y_dtype y_i = *((y_dtype*)y_iter->dataptr);\<newline>'' @
        ''\<newline>'' @
        ''        z_dtype& z_i = *((z_dtype*)z_iter->dataptr);\<newline>'' @
        ''\<newline>'' @
        ''        \<newline>'' @
        ''        z_i = x_i + y_i;\<newline>'' @
        ''        PyArray_ITER_NEXT(x_iter);\<newline>'' @
        ''PyArray_ITER_NEXT(y_iter);\<newline>'' @
        ''PyArray_ITER_NEXT(z_iter);\<newline>'' @
        ''\<newline>'' @
        ''    }\<newline>'' @
        ''    if (x_iter) Py_DECREF(x_iter);\<newline>'' @
        ''if (y_iter) Py_DECREF(y_iter);\<newline>'' @
        ''if (z_iter) Py_DECREF(z_iter);\<newline>'' @
        ''\<newline>'' @
        ''    \<newline>'' @
        ''    }\<newline>'' @
        ''    \<newline>'' @
        ''    '')"
    using t[THEN conjunct2, THEN conjunct1] by (simp add: check_stmts_def)
  have g: "selected_loop (\<lambda>v. v \<noteq> ''y'') (\<lambda>v. v = ''y'') [''x'', ''y'', ''z''] = General"
    using t[of "\<lambda>v. v \<noteq> ''y''" "\<lambda>v. v = ''y''", THEN conjunct2, THEN conjunct2, THEN conjunct2,
            THEN conjunct1]
    by simp
  have c: "selected_loop (\<lambda>v. False) (\<lambda>v. True) [''x'', ''y'', ''z''] = Contiguous"
    using t[of "\<lambda>v. False" "\<lambda>v. True", THEN conjunct2, THEN conjunct2, THEN conjunct1]
    by simp
  have e: "elemwise_wrap [] ''z_i = x_i + y_i;'' [] [] [] [] = Inl IndexError"
    using elemwise_wrap_dual_path[of "[]" "[]" "[]" "''z_i = x_i + y_i;''" "[]" "[]", THEN conjunct1]
    by simp
  have f: "selected_loop
        (\<lambda>v. PyArray_ISCARRAY \<lparr>c_contiguous = True, f_contiguous = False, aligned = True,
                                  writeable = True, notswapped = True\<rparr>)
        (\<lambda>v. PyArray_ISFARRAY \<lparr>c_contiguous = True, f_contiguous = False, aligned = True,
                                  writeable = True, notswapped = True\<rparr>)
        [''x'', ''y'', ''z''] = Contiguous"
    using t[where fl = "\<lambda>v. \<lparr>c_contiguous = True, f_contiguous = False, aligned = True,
                                  writeable = True, notswapped = True\<rparr>",
            THEN conjunct2, THEN conjunct2, THEN conjunct2, THEN conjunct2]
    by simp
  show ?thesis
    by (intro conjI) (fact k e g c f)+
qed

theorem elemwise_wrap_dual_path_counterexample:
  "c_contiguous (readonly_x_flags ''x'') \<and> c_contiguous (readonly_x_flags ''y'')
   \<and> c_contiguous (readonly_x_flags ''z'')
   \<and> f_contiguous (readonly_x_flags ''x'') \<and> f_contiguous (readonly_x_flags ''y'')
   \<and> f_contiguous (readonly_x_flags ''z'')
   \<and> \<not> PyArray_ISCARRAY (readonly_x_flags ''x'') \<and> \<not> PyArray_ISFARRAY (readonly_x_flags ''x'')
   \<and> selected_loop (\<lambda>v. PyArray_ISCARRAY (readonly_x_flags v))
        (\<lambda>v. PyArray_ISFARRAY (readonly_x_flags v)) [''x'', ''y'', ''z''] = General"
  by (simp add: readonly_x_flags_def PyArray_ISCARRAY_def PyArray_ISFARRAY_def selected_loop_def
        run_check_def check_stmts_def)

section \<open>Aliasing in \<^verbatim>\<open>elemwise.c_code\<close>\<close>

lemma index_of_Inr:
  "index_of xs x = Inr i \<Longrightarrow> i < length xs \<and> xs ! i = x"
  by (induction xs arbitrary: i) (auto split: if_splits sum.splits)




lemma elemwise_wrap_Inr:
  "lv @ wlv \<noteq> [] \<Longrightarrow> \<exists>k. elemwise_wrap b c a lv wlv al = Inr k"
  by (cases "lv @ wlv") (simp_all add: elemwise_wrap_def)











section \<open>The key of a compiled module\<close>

lemma cgen_Inr:
  assumes "cgen ext data_of name behavior names vals converters = Inr cg"
  shows "cg_code cg =
           instantiate_code
             (''_omega_'' @ name @ ''_'' @
                md5 ext (struct_contents behavior
                  (snd (cgetspecs ext data_of names vals (cg_converters cg)))))
             (snd (cgetspecs ext data_of names vals (cg_converters cg)))"
  using assms
  by (auto simp: cgen_def Let_def struct_name_def split: if_splits prod.splits option.splits)

lemma instantiate_code_differs:
  "length sn1 = length sn2 \<Longrightarrow> sn1 \<noteq> sn2 \<Longrightarrow>
   instantiate_code sn1 specs1 \<noteq> instantiate_code sn2 specs2"
  by (simp add: instantiate_code_def)

lemma c_thunk_factory_Inr:
  assumes "c_thunk_factory ext self = Inr m" and "c_code_r self = Inr cg"
  shows "mod_name m = md5 ext (cg_code cg)" and "function_code m = cg_code cg"
    and "support_code m = c_support_code self @ cg_struct cg"
  using assms by (auto simp: c_thunk_factory_def)

text \<open>
  Claim C5 (as amended).  The name of the compiled module, the key of the cache, is the
  md5 of the instantiation code that \<^verbatim>\<open>cgen\<close> returns: the code that creates the
  struct, whose name is made of the class name of the operator and the md5 of the
  struct contents, and imports the variables.  The text of the struct and the
  support code are not hashed themselves.  Whatever an operator declares as
  \<^verbatim>\<open>c_support_code\<close>, \<^verbatim>\<open>c_headers\<close> and \<^verbatim>\<open>c_libs\<close>, the key is the same: none of the
  three takes part in the hash.  Two operators with the same instantiation code have
  the same key.  Two operators of one class name whose struct contents differ have
  different keys, unless md5 collides on the two struct contents or on the two
  instantiation codes (the digests of the struct contents being of one length, as
  hexadecimal md5 digests are).  (Two operators whose units differ in the support
  code alone share a key: \<open>mod_name_counterexample\<close>.)
\<close>

theorem mod_name_hashes_instantiate_code:
  assumes "c_code_r self = cgen ext data_of name behavior names vals converters"
      and "c_thunk_factory ext self = Inr m"
  shows "\<exists>cg specs contents.
           cgen ext data_of name behavior names vals converters = Inr cg
         \<and> specs = snd (cgetspecs ext data_of names vals (cg_converters cg))
         \<and> contents = struct_contents behavior specs
         \<and> function_code m = cg_code cg
         \<and> mod_name m =
             md5 ext (instantiate_code (''_omega_'' @ name @ ''_'' @ md5 ext contents) specs)
         \<and> (\<forall>s hs ls. \<exists>m'.
               c_thunk_factory ext (self\<lparr>c_support_code := s, c_headers := hs, c_libs := ls\<rparr>) = Inr m'
             \<and> support_code m' = s @ cg_struct cg
             \<and> mod_name m' = mod_name m)
         \<and> (\<forall>self2 data_of2 behavior2 names2 vals2 converters2 cg2 m2 contents2.
               c_code_r self2 = Inr cg2
             \<and> cgen ext data_of2 name behavior2 names2 vals2 converters2 = Inr cg2
             \<and> c_thunk_factory ext self2 = Inr m2
             \<and> contents2 = struct_contents behavior2
                  (snd (cgetspecs ext data_of2 names2 vals2 (cg_converters cg2)))
             \<longrightarrow> (cg_code cg2 = cg_code cg \<longrightarrow> mod_name m2 = mod_name m)
               \<and> (contents2 \<noteq> contents
                  \<and> (md5 ext contents2 = md5 ext contents \<longrightarrow> contents2 = contents)
                  \<and> length (md5 ext contents2) = length (md5 ext contents)
                  \<and> (md5 ext (cg_code cg2) = md5 ext (cg_code cg) \<longrightarrow> cg_code cg2 = cg_code cg)
                  \<longrightarrow> mod_name m2 \<noteq> mod_name m))"
proof -
  from assms(2) obtain cg where cg: "c_code_r self = Inr cg"
    by (auto simp: c_thunk_factory_def split: sum.splits)
  note m = c_thunk_factory_Inr[OF assms(2) cg]
  from cg assms(1) have g: "cgen ext data_of name behavior names vals converters = Inr cg"
    by simp
  let ?specs = "snd (cgetspecs ext data_of names vals (cg_converters cg))"
  let ?contents = "struct_contents behavior ?specs"
  let ?sn = "''_omega_'' @ name @ ''_'' @ md5 ext ?contents"
  have code: "cg_code cg = instantiate_code ?sn ?specs"
    using cgen_Inr[OF g] .
  have k: "mod_name m = md5 ext (instantiate_code ?sn ?specs)"
    using m(1) code by simp
  have r: "\<forall>s hs ls. \<exists>m'.
             c_thunk_factory ext (self\<lparr>c_support_code := s, c_headers := hs, c_libs := ls\<rparr>) = Inr m'
             \<and> support_code m' = s @ cg_struct cg
             \<and> mod_name m' = mod_name m"
    using m(1) by (simp add: c_thunk_factory_def cg)
  have d: "\<forall>self2 data_of2 behavior2 names2 vals2 converters2 cg2 m2 contents2.
               c_code_r self2 = Inr cg2
             \<and> cgen ext data_of2 name behavior2 names2 vals2 converters2 = Inr cg2
             \<and> c_thunk_factory ext self2 = Inr m2
             \<and> contents2 = struct_contents behavior2
                  (snd (cgetspecs ext data_of2 names2 vals2 (cg_converters cg2)))
             \<longrightarrow> (cg_code cg2 = cg_code cg \<longrightarrow> mod_name m2 = mod_name m)
               \<and> (contents2 \<noteq> ?contents
                  \<and> (md5 ext contents2 = md5 ext ?contents \<longrightarrow> contents2 = ?contents)
                  \<and> length (md5 ext contents2) = length (md5 ext ?contents)
                  \<and> (md5 ext (cg_code cg2) = md5 ext (cg_code cg) \<longrightarrow> cg_code cg2 = cg_code cg)
                  \<longrightarrow> mod_name m2 \<noteq> mod_name m)"
  proof (intro allI impI)
    fix self2 :: "'a native_op" and data_of2 behavior2 names2 vals2 converters2 cg2 m2 contents2
    assume h: "c_code_r self2 = Inr cg2
             \<and> cgen ext data_of2 name behavior2 names2 vals2 converters2 = Inr cg2
             \<and> c_thunk_factory ext self2 = Inr m2
             \<and> contents2 = struct_contents behavior2
                  (snd (cgetspecs ext data_of2 names2 vals2 (cg_converters cg2)))"
    then have cg2: "c_code_r self2 = Inr cg2"
      and g2: "cgen ext data_of2 name behavior2 names2 vals2 converters2 = Inr cg2"
      and t2: "c_thunk_factory ext self2 = Inr m2"
      and c2: "contents2 = struct_contents behavior2
                  (snd (cgetspecs ext data_of2 names2 vals2 (cg_converters cg2)))"
      by blast+
    note m2 = c_thunk_factory_Inr[OF t2 cg2]
    let ?specs2 = "snd (cgetspecs ext data_of2 names2 vals2 (cg_converters cg2))"
    let ?sn2 = "''_omega_'' @ name @ ''_'' @ md5 ext contents2"
    have code2: "cg_code cg2 = instantiate_code ?sn2 ?specs2"
      using cgen_Inr[OF g2] unfolding c2 .
    have same: "cg_code cg2 = cg_code cg \<longrightarrow> mod_name m2 = mod_name m"
      using m(1) m2(1) by simp
    have diff: "mod_name m2 \<noteq> mod_name m"
      if a: "contents2 \<noteq> ?contents
                  \<and> (md5 ext contents2 = md5 ext ?contents \<longrightarrow> contents2 = ?contents)
                  \<and> length (md5 ext contents2) = length (md5 ext ?contents)
                  \<and> (md5 ext (cg_code cg2) = md5 ext (cg_code cg) \<longrightarrow> cg_code cg2 = cg_code cg)"
    proof -
      from a have ne: "md5 ext contents2 \<noteq> md5 ext ?contents" by blast
      from a have len: "length (md5 ext contents2) = length (md5 ext ?contents)" by blast
      from ne have sn: "?sn2 \<noteq> ?sn" by simp
      from len have sl: "length ?sn2 = length ?sn" by simp
      from instantiate_code_differs[OF sl sn] code code2
      have "cg_code cg2 \<noteq> cg_code cg" by simp
      with a have "md5 ext (cg_code cg2) \<noteq> md5 ext (cg_code cg)" by blast
      with m(1) m2(1) show ?thesis by simp
    qed
    from same diff
    show "(cg_code cg2 = cg_code cg \<longrightarrow> mod_name m2 = mod_name m)
               \<and> (contents2 \<noteq> ?contents
                  \<and> (md5 ext contents2 = md5 ext ?contents \<longrightarrow> contents2 = ?contents)
                  \<and> length (md5 ext contents2) = length (md5 ext ?contents)
                  \<and> (md5 ext (cg_code cg2) = md5 ext (cg_code cg) \<longrightarrow> cg_code cg2 = cg_code cg)
                  \<longrightarrow> mod_name m2 \<noteq> mod_name m)"
      by blast
  qed
  from g m(2) k r d show ?thesis by blast
qed

lemma add_native_c_code:
  "\<exists>cg. c_code plain_extern (\<lambda>r. Ref r) add_elemwise_xy None = Inr cg"
proof -
  obtain b where b: "c_code_behavior add_elemwise_xy = Inr b"
    using elemwise_wrap_Inr[of "[''x'', ''y'']" "[''z'']" "[]" "''z_i = x_i + y_i;''" "[]" "[]"]
    by (auto simp: c_code_behavior_def add_elemwise_xy_def c_code_aliases_def c_code_loop_vars_def)
  show ?thesis
    by (simp add: c_code_def b cgen_def plain_extern_def Let_def split: prod.splits)
qed

theorem mod_name_counterexample:
  "\<exists>m1 m2. c_thunk_factory plain_extern (add_native []) = Inr m1
         \<and> c_thunk_factory plain_extern (add_native ''static int calls = 0;'') = Inr m2
         \<and> function_code m1 = function_code m2
         \<and> support_code m1 \<noteq> support_code m2
         \<and> mod_name m1 = mod_name m2"
proof -
  obtain cg where "c_code plain_extern (\<lambda>r. Ref r) add_elemwise_xy None = Inr cg"
    using add_native_c_code by blast
  then show ?thesis
    by (simp add: c_thunk_factory_def add_native_def)
qed

lemma elemwise_wrap_during:
  assumes "elemwise_wrap b c a lv wlv al = Inr k"
      and "elemwise_wrap b c' a lv wlv al = Inr k'"
      and "length c = length c'"
  shows "length k = length k'" and "c \<noteq> c' \<Longrightarrow> k \<noteq> k'"
proof -
  from assms(1) obtain v1 rest where vs: "lv @ wlv = v1 # rest"
    by (cases "lv @ wlv") (auto simp: elemwise_wrap_def)
  from assms(1) have k: "k =
          ''\<newline>    npy_intp __elemwise_size = PyArray_SIZE('' @ v1 @ '');\<newline>    '' @
          b @
          ''\<newline>    bool all_c_contiguous = 1;\<newline>    bool all_f_contiguous = 1;\<newline>    '' @
          contiguity_check (lv @ wlv) @
          ''\<newline>    if (all_c_contiguous || all_f_contiguous) {\<newline>        '' @
          contiguous_loop c lv wlv al @
          ''\<newline>    }\<newline>    else {\<newline>        '' @
          general_loop c lv wlv al @
          ''\<newline>    }\<newline>    '' @
          a @
          ''\<newline>    ''"
    unfolding elemwise_wrap_def Let_def vs list.case by simp
  from assms(2) have k': "k' =
          ''\<newline>    npy_intp __elemwise_size = PyArray_SIZE('' @ v1 @ '');\<newline>    '' @
          b @
          ''\<newline>    bool all_c_contiguous = 1;\<newline>    bool all_f_contiguous = 1;\<newline>    '' @
          contiguity_check (lv @ wlv) @
          ''\<newline>    if (all_c_contiguous || all_f_contiguous) {\<newline>        '' @
          contiguous_loop c' lv wlv al @
          ''\<newline>    }\<newline>    else {\<newline>        '' @
          general_loop c' lv wlv al @
          ''\<newline>    }\<newline>    '' @
          a @
          ''\<newline>    ''"
    unfolding elemwise_wrap_def Let_def vs list.case by simp
  have l: "length (elemwise_loopcode c it nt acq ct lv wlv al) =
           length (elemwise_loopcode c' it nt acq ct lv wlv al)" for it nt acq ct
    using assms(3) by (simp add: elemwise_loopcode_def Let_def)
  show "length k = length k'"
    unfolding k k' contiguous_loop_def general_loop_def
    using l[of contiguous_init contiguous_next contiguous_acquire contiguous_cleanup]
          l[of general_init general_next general_acquire general_cleanup]
    by simp
  have d: "elemwise_loopcode c it nt acq ct lv wlv al \<noteq>
           elemwise_loopcode c' it nt acq ct lv wlv al" if "c \<noteq> c'" for it nt acq ct
    using assms(3) that by (simp add: elemwise_loopcode_def Let_def)
  show "k \<noteq> k'" if "c \<noteq> c'"
    unfolding k k' contiguous_loop_def general_loop_def
    using d[OF that, of contiguous_init contiguous_next contiguous_acquire contiguous_cleanup]
          l[of contiguous_init contiguous_next contiguous_acquire contiguous_cleanup]
    by simp
qed

lemma struct_contents_behavior:
  assumes "length b = length b'"
  shows "length (struct_contents b specs) = length (struct_contents b' specs)"
    and "b \<noteq> b' \<Longrightarrow> struct_contents b specs \<noteq> struct_contents b' specs"
  using assms by (simp_all add: struct_contents_def)

lemma c_code_plain_extern:
  assumes "c_code_behavior self = Inr b"
  shows "\<exists>cg. c_code plain_extern data_of self None = Inr cg
           \<and> cgen plain_extern data_of (cls_name self) b (inames self @ onames self)
                (inputs self @ outputs self) None = Inr cg
           \<and> cg_converters cg = [()]"
  by (simp add: c_code_def assms cgen_def plain_extern_def Let_def split: prod.splits)

theorem mod_name_hashes_instantiate_code_witness:
  "\<exists>behavior m cg specs.
       c_code_behavior add_elemwise_xy = Inr behavior
     \<and> c_code_r (add_native []) =
         cgen plain_extern (\<lambda>r. Ref r) ''add_elemwise'' behavior [''x'', ''y'', ''z''] [0, 1, 2] None
     \<and> c_thunk_factory plain_extern (add_native []) = Inr m
     \<and> cgen plain_extern (\<lambda>r. Ref r) ''add_elemwise'' behavior [''x'', ''y'', ''z''] [0, 1, 2] None = Inr cg
     \<and> specs = snd (cgetspecs plain_extern (\<lambda>r. Ref r) [''x'', ''y'', ''z''] [0, 1, 2] (cg_converters cg))
     \<and> mod_name m =
         md5 plain_extern (instantiate_code
           (''_omega_'' @ ''add_elemwise'' @ ''_'' @ md5 plain_extern (struct_contents behavior specs))
           specs)
     \<and> (\<exists>m'. c_thunk_factory plain_extern
                 ((add_native [])\<lparr>c_support_code := ''static int calls = 0;'',
                    c_headers := [''cblas.h''], c_libs := [''mkl'', ''m'']\<rparr>) = Inr m'
             \<and> mod_name m' = mod_name m)
     \<and> (\<exists>behavior2 cg2 m2.
             c_code_behavior add_elemwise_yx = Inr behavior2
           \<and> c_code_r add_native_yx = Inr cg2
           \<and> c_thunk_factory plain_extern add_native_yx = Inr m2
           \<and> struct_contents behavior2
                (snd (cgetspecs plain_extern (\<lambda>r. Ref r) [''x'', ''y'', ''z''] [0, 1, 2] (cg_converters cg2)))
              \<noteq> struct_contents behavior specs
           \<and> mod_name m2 \<noteq> mod_name m)"
proof -
  let ?W = "\<lambda>c. elemwise_wrap [] c [] [''x'', ''y''] [''z''] []"
  have e1: "c_code_behavior add_elemwise_xy = ?W ''z_i = x_i + y_i;''"
    by (simp add: c_code_behavior_def add_elemwise_xy_def c_code_aliases_def c_code_loop_vars_def)
  have e2: "c_code_behavior add_elemwise_yx = ?W ''z_i = y_i + x_i;''"
    by (simp add: c_code_behavior_def add_elemwise_yx_def add_elemwise_xy_def c_code_aliases_def
          c_code_loop_vars_def)
  obtain b where w1: "?W ''z_i = x_i + y_i;'' = Inr b"
    using elemwise_wrap_Inr[of "[''x'', ''y'']" "[''z'']" "[]" "''z_i = x_i + y_i;''" "[]" "[]"]
    by auto
  obtain b2 where w2: "?W ''z_i = y_i + x_i;'' = Inr b2"
    using elemwise_wrap_Inr[of "[''x'', ''y'']" "[''z'']" "[]" "''z_i = y_i + x_i;''" "[]" "[]"]
    by auto
  have b: "c_code_behavior add_elemwise_xy = Inr b" and b2: "c_code_behavior add_elemwise_yx = Inr b2"
    by (simp_all add: e1 e2 w1 w2)
  have lb: "length b2 = length b" and nb: "b2 \<noteq> b"
    using elemwise_wrap_during[OF w2 w1] by simp_all
  from c_code_plain_extern[OF b, of "\<lambda>r. Ref r"] obtain cg where
    cc: "c_code plain_extern (\<lambda>r. Ref r) add_elemwise_xy None = Inr cg" and
    g: "cgen plain_extern (\<lambda>r. Ref r) ''add_elemwise'' b [''x'', ''y'', ''z''] [0, 1, 2] None = Inr cg" and
    cv: "cg_converters cg = [()]"
    by (auto simp: add_elemwise_xy_def)
  from c_code_plain_extern[OF b2, of "\<lambda>r. Ref r"] obtain cg2 where
    cc2: "c_code plain_extern (\<lambda>r. Ref r) add_elemwise_yx None = Inr cg2" and
    g2: "cgen plain_extern (\<lambda>r. Ref r) ''add_elemwise'' b2 [''x'', ''y'', ''z''] [0, 1, 2] None = Inr cg2" and
    cv2: "cg_converters cg2 = [()]"
    by (auto simp: add_elemwise_yx_def add_elemwise_xy_def)
  have h1: "c_code_r (add_native []) =
         cgen plain_extern (\<lambda>r. Ref r) ''add_elemwise'' b [''x'', ''y'', ''z''] [0, 1, 2] None"
  proof -
    have "c_code_r (add_native []) = Inr cg" by (simp add: add_native_def cc)
    with g show ?thesis by simp
  qed
  obtain m where h2: "c_thunk_factory plain_extern (add_native []) = Inr m"
    by (simp add: c_thunk_factory_def add_native_def cc)
  have r2: "c_code_r add_native_yx = Inr cg2"
    by (simp add: add_native_yx_def cc2)
  obtain m2 where t2: "c_thunk_factory plain_extern add_native_yx = Inr m2"
    by (simp add: c_thunk_factory_def r2)
  let ?sp = "\<lambda>c. snd (cgetspecs plain_extern (\<lambda>r. Ref r) [''x'', ''y'', ''z''] [0, 1, 2] (cg_converters c))"
  have sp: "?sp cg2 = ?sp cg" by (simp add: cv cv2)
  from mod_name_hashes_instantiate_code[OF h1 h2] obtain cg' where
    g': "cgen plain_extern (\<lambda>r. Ref r) ''add_elemwise'' b [''x'', ''y'', ''z''] [0, 1, 2] None = Inr cg'"
    and k: "mod_name m =
         md5 plain_extern (instantiate_code
           (''_omega_'' @ ''add_elemwise'' @ ''_'' @ md5 plain_extern (struct_contents b (?sp cg')))
           (?sp cg'))"
    and r: "\<forall>s hs ls. \<exists>m'.
               c_thunk_factory plain_extern
                 ((add_native [])\<lparr>c_support_code := s, c_headers := hs, c_libs := ls\<rparr>) = Inr m'
             \<and> support_code m' = s @ cg_struct cg'
             \<and> mod_name m' = mod_name m"
    and d: "\<forall>self2 data_of2 behavior2 names2 vals2 converters2 cg2 m2 contents2.
               c_code_r self2 = Inr cg2
             \<and> cgen plain_extern data_of2 ''add_elemwise'' behavior2 names2 vals2 converters2 = Inr cg2
             \<and> c_thunk_factory plain_extern self2 = Inr m2
             \<and> contents2 = struct_contents behavior2
                  (snd (cgetspecs plain_extern data_of2 names2 vals2 (cg_converters cg2)))
             \<longrightarrow> (cg_code cg2 = cg_code cg' \<longrightarrow> mod_name m2 = mod_name m)
               \<and> (contents2 \<noteq> struct_contents b (?sp cg')
                  \<and> (md5 plain_extern contents2 = md5 plain_extern (struct_contents b (?sp cg'))
                        \<longrightarrow> contents2 = struct_contents b (?sp cg'))
                  \<and> length (md5 plain_extern contents2) =
                      length (md5 plain_extern (struct_contents b (?sp cg')))
                  \<and> (md5 plain_extern (cg_code cg2) = md5 plain_extern (cg_code cg')
                        \<longrightarrow> cg_code cg2 = cg_code cg')
                  \<longrightarrow> mod_name m2 \<noteq> mod_name m)"
    by blast
  from g g' have same: "cg' = cg" by simp
  have idn: "md5 plain_extern = (\<lambda>s. s)" by (simp add: plain_extern_def)
  have ne: "struct_contents b2 (?sp cg2) \<noteq> struct_contents b (?sp cg)"
    unfolding sp using struct_contents_behavior(2)[OF lb nb] .
  have le: "length (struct_contents b2 (?sp cg2)) = length (struct_contents b (?sp cg))"
    unfolding sp using struct_contents_behavior(1)[OF lb] .
  from d[rule_format, of add_native_yx cg2 "\<lambda>r. Ref r" b2 "[''x'', ''y'', ''z'']" "[0, 1, 2]" None m2
        "struct_contents b2 (?sp cg2)"] r2 g2 t2 ne le
  have dk: "mod_name m2 \<noteq> mod_name m"
    unfolding same idn by simp
  from r obtain m' where
    "c_thunk_factory plain_extern
                 ((add_native [])\<lparr>c_support_code := ''static int calls = 0;'',
                    c_headers := [''cblas.h''], c_libs := [''mkl'', ''m'']\<rparr>) = Inr m'
             \<and> mod_name m' = mod_name m"
    by blast
  with b h1 h2 g k b2 r2 t2 ne dk show ?thesis
    unfolding same by blast
qed

section \<open>\<^verbatim>\<open>input\<close> never returns an existing Result\<close>

lemma input_Inr:
  assumes "input np x st = Inr (r', st')"
  shows "(\<forall>r. x \<noteq> ResultV r) \<and> r' = length (results st)
       \<and> results st' = results st @ [results st' ! r']
       \<and> \<not> constant_flag (results st' ! r')
       \<and> literals_db st' = literals_db st \<and> literals_id_db st' = literals_id_db st
       \<and> (case x of
             Num n \<Rightarrow> rclass (results st' ! r') = NumpyR
                     \<and> data (results st' ! r') = Ref (length (heap st))
                     \<and> heap st' = heap st @
                         [Array default_input_scalar_dtype []
                            [zeros_iadd np default_input_scalar_dtype n]]
           | NdarrayV a \<Rightarrow> rclass (results st' ! r') = NumpyR
                     \<and> data (results st' ! r') = Ref a \<and> heap st' = heap st
           | _ \<Rightarrow> rclass (results st' ! r') = PythonR
                     \<and> map_option Ref (address_of x) = Some (data (results st' ! r'))
                     \<and> heap st' = heap st)"
  using assms
  by (cases x)
     (auto simp: input_def new_result_def heap_alloc_def Let_def address_of_def nth_append)

text \<open>
  Claim C10.  \<^verbatim>\<open>input\<close> applied to a Result, of whatever class, raises \<^verbatim>\<open>TypeError\<close>.
  Whenever \<^verbatim>\<open>input\<close> returns, its argument is not a Result and what it returns is a new
  Result, added after all the existing ones, which stay as they are: a \<^verbatim>\<open>NumpyR\<close>
  around the array it was given, a \<^verbatim>\<open>NumpyR\<close> around a new zero-dimensional array of
  dtype \<^verbatim>\<open>float64\<close> holding what numpy makes of the number it was given when adding
  it to a \<^verbatim>\<open>float64\<close> zero, or a \<^verbatim>\<open>PythonR\<close> around any other raw value.
\<close>

theorem input_rejects_results:
  "input np (ResultV r) st = Inl (TypeError ''%s is already a result.'')
   \<and> (\<forall>r' st'. input np x st = Inr (r', st') \<longrightarrow>
         (\<forall>r. x \<noteq> ResultV r)
       \<and> r' = length (results st)
       \<and> results st' = results st @ [results st' ! r']
       \<and> \<not> constant_flag (results st' ! r')
       \<and> (case x of
             Num n \<Rightarrow> rclass (results st' ! r') = NumpyR
                     \<and> data (results st' ! r') = Ref (length (heap st))
                     \<and> heap st' = heap st @
                         [Array default_input_scalar_dtype []
                            [zeros_iadd np default_input_scalar_dtype n]]
           | NdarrayV a \<Rightarrow> rclass (results st' ! r') = NumpyR
                     \<and> data (results st' ! r') = Ref a \<and> heap st' = heap st
           | _ \<Rightarrow> rclass (results st' ! r') = PythonR
                     \<and> map_option Ref (address_of x) = Some (data (results st' ! r'))
                     \<and> heap st' = heap st))"
proof -
  have "input np (ResultV r) st = Inl (TypeError ''%s is already a result.'')"
    by (simp add: input_def)
  moreover have "\<forall>r' st'. input np x st = Inr (r', st') \<longrightarrow>
         (\<forall>r. x \<noteq> ResultV r)
       \<and> r' = length (results st)
       \<and> results st' = results st @ [results st' ! r']
       \<and> \<not> constant_flag (results st' ! r')
       \<and> (case x of
             Num n \<Rightarrow> rclass (results st' ! r') = NumpyR
                     \<and> data (results st' ! r') = Ref (length (heap st))
                     \<and> heap st' = heap st @
                         [Array default_input_scalar_dtype []
                            [zeros_iadd np default_input_scalar_dtype n]]
           | NdarrayV a \<Rightarrow> rclass (results st' ! r') = NumpyR
                     \<and> data (results st' ! r') = Ref a \<and> heap st' = heap st
           | _ \<Rightarrow> rclass (results st' ! r') = PythonR
                     \<and> map_option Ref (address_of x) = Some (data (results st' ! r'))
                     \<and> heap st' = heap st)"
    using input_Inr by blast
  ultimately show ?thesis by blast
qed

lemma float64_numpy_example:
  "zeros_iadd float64_numpy ''float64'' 5 = 5"
  "zeros_iadd float64_numpy ''float64'' 9007199254740993 = 9007199254740992"
  by (simp_all add: float64_numpy_def)

theorem input_rejects_results_witness:
  "input float64_numpy (ResultV 0) tensor_state = Inl (TypeError ''%s is already a result.'')
   \<and> (\<exists>r' st'. input float64_numpy (Num 9007199254740993) tensor_state = Inr (r', st')
        \<and> r' = 1
        \<and> results st' = results tensor_state @ [results st' ! r']
        \<and> rclass (results st' ! r') = NumpyR
        \<and> data (results st' ! r') = Ref 1
        \<and> heap st' = heap tensor_state @ [Array ''float64'' [] [9007199254740992]])"
proof -
  obtain r' st' where i: "input float64_numpy (Num 9007199254740993) tensor_state = Inr (r', st')"
    by (simp add: input_def heap_alloc_def new_result_def Let_def)
  note t = input_rejects_results[where np = float64_numpy and r = 0 and st = tensor_state
      and x = "Num 9007199254740993"]
  from t have e: "input float64_numpy (ResultV 0) tensor_state =
      Inl (TypeError ''%s is already a result.'')"
    by (rule conjunct1)
  from t[THEN conjunct2, rule_format, OF i]
  have c: "r' = length (results tensor_state)
       \<and> results st' = results tensor_state @ [results st' ! r']
       \<and> rclass (results st' ! r') = NumpyR
       \<and> data (results st' ! r') = Ref (length (heap tensor_state))
       \<and> heap st' = heap tensor_state @
           [Array default_input_scalar_dtype []
              [zeros_iadd float64_numpy default_input_scalar_dtype 9007199254740993]]"
    by (simp del: append.simps) blast
  have l: "length (results tensor_state) = 1" "length (heap tensor_state) = 1"
    by (simp_all add: tensor_state_def)
  from c have "r' = 1
        \<and> results st' = results tensor_state @ [results st' ! r']
        \<and> rclass (results st' ! r') = NumpyR
        \<and> data (results st' ! r') = Ref 1
        \<and> heap st' = heap tensor_state @ [Array ''float64'' [] [9007199254740992]]"
    unfolding l default_input_scalar_dtype_def float64_numpy_example by blast
  with e i show ?thesis by blast
qed

section \<open>Dispatch between the variants of a family\<close>

lemma scalar_switch_cases:
  assumes "wrap np x st = Inr (x', st1)" and "wrap np y st1 = Inr (y', st2)"
  shows "(constant_and_not_shape st2 y' = Inr True \<longrightarrow>
            scalar_switch np normal_f scalar_f scalar_f_reverse x y st = scalar_f x' y' st2)
       \<and> (constant_and_not_shape st2 y' = Inr False \<and> constant_and_not_shape st2 x' = Inr True \<longrightarrow>
            (case scalar_f_reverse of
               Some f_reverse \<Rightarrow>
                 scalar_switch np normal_f scalar_f scalar_f_reverse x y st = f_reverse y' x' st2
             | None \<Rightarrow>
                 scalar_switch np normal_f scalar_f scalar_f_reverse x y st =
                   Inl (TypeError ''You cannot do this operation on a scalar.'')))
       \<and> (constant_and_not_shape st2 y' = Inr False \<and> constant_and_not_shape st2 x' = Inr False \<longrightarrow>
            scalar_switch np normal_f scalar_f scalar_f_reverse x y st = normal_f x' y' st2)
       \<and> (\<forall>e. constant_and_not_shape st2 y' = Inl e \<longrightarrow>
            scalar_switch np normal_f scalar_f scalar_f_reverse x y st = Inl e)
       \<and> (\<forall>e. constant_and_not_shape st2 y' = Inr False \<and> constant_and_not_shape st2 x' = Inl e \<longrightarrow>
            scalar_switch np normal_f scalar_f scalar_f_reverse x y st = Inl e)"
  using assms by (simp add: scalar_switch_def split: option.splits)

lemma literal_Num_fresh:
  assumes "map_of (literals_db st) (Num n) = None"
  shows "\<exists>st'. literal np (Num n) st = Inr (length (results st), st')
           \<and> constant_and_not_shape st' (length (results st)) = Inr True
           \<and> (\<forall>r < length (results st). results st' ! r = results st ! r)"
  using assms
  by (simp add: literal_def hashable_def literal_hashable_def input_def heap_alloc_def
        new_result_def set_constant_def constant_and_not_shape_def heap_get_def
        nth_append Let_def)

lemma wrap_ResultV:
  "rclass (results st ! r) \<noteq> OtherResult \<Longrightarrow> wrap np (ResultV r) st = Inr (r, st)"
  by (cases "rclass (results st ! r)") (simp_all add: wrap_def)

lemma wrap_Num: "wrap np (Num n) st = literal np (Num n) st"
  by (simp add: wrap_def)


lemma scalar_tensor_wraps:
  assumes "r < length (results st)" and "rclass (results st ! r) \<noteq> OtherResult"
      and "\<not> constant_flag (results st ! r)"
      and "map_of (literals_db st) (Num n) = None"
  shows "\<exists>lit st'. wrap np (Num n) st = Inr (lit, st')
           \<and> wrap np (ResultV r) st' = Inr (r, st')
           \<and> constant_and_not_shape st' lit = Inr True
           \<and> constant_and_not_shape st' r = Inr False"
proof -
  from literal_Num_fresh[OF assms(4)] obtain st' where
    l: "literal np (Num n) st = Inr (length (results st), st')" and
    c: "constant_and_not_shape st' (length (results st)) = Inr True" and
    k: "\<forall>r < length (results st). results st' ! r = results st ! r"
    by blast
  from k assms(1) have same: "results st' ! r = results st ! r" by simp
  have w1: "wrap np (Num n) st = Inr (length (results st), st')" by (simp add: wrap_Num l)
  have w2: "wrap np (ResultV r) st' = Inr (r, st')"
    using assms(2) same by (simp add: wrap_ResultV)
  have c2: "constant_and_not_shape st' r = Inr False"
    using assms(3) same by (simp add: constant_and_not_shape_def)
  from w1 w2 c c2 show ?thesis by blast
qed



text \<open>
  Claim C8 (as amended).  In a family built without a scalar-tensor variant, when the
  left operand is a constant array of empty shape and the right operand is not
  (it is not constant, or it is a constant array of another shape), the call raises
  the built-in \<^verbatim>\<open>TypeError\<close> with the message
  \<^verbatim>\<open>You cannot do this operation on a scalar.\<close>, whatever the two variants of the
  family are: none of them is called, so no node is built.  (\<^verbatim>\<open>TypeError\<close> is not an
  error of the dispatcher alone: \<^verbatim>\<open>input\<close> raises it too,
  \<open>scalar_switch_without_reverse_counterexample\<close>.)
\<close>

theorem scalar_switch_without_reverse:
  assumes "wrap np x st = Inr (x', st1)" and "wrap np y st1 = Inr (y', st2)"
      and "constant_and_not_shape st2 y' = Inr False"
      and "constant_and_not_shape st2 x' = Inr True"
  shows "scalar_switch np normal_f scalar_f None x y st =
           Inl (TypeError ''You cannot do this operation on a scalar.'')"
  using scalar_switch_cases[OF assms(1,2), of normal_f scalar_f None] assms(3,4) by simp

lemma tensor_state_facts:
  "0 < length (results tensor_state)" "rclass (results tensor_state ! 0) \<noteq> OtherResult"
  "\<not> constant_flag (results tensor_state ! 0)" "map_of (literals_db tensor_state) (Num 5) = None"
  by (simp_all add: tensor_state_def)



theorem scalar_switch_without_reverse_witness:
  "\<exists>lit s'. wrap plain_numpy (Num 5) tensor_state = Inr (lit, s')
     \<and> wrap plain_numpy (ResultV 0) s' = Inr (0, s')
     \<and> constant_and_not_shape s' 0 = Inr False
     \<and> constant_and_not_shape s' lit = Inr True
     \<and> scalar_switch plain_numpy (node ''add_elemwise_inplace'') (node ''add_scalar_inplace'') None
          (Num 5) (ResultV 0) tensor_state =
         Inl (TypeError ''You cannot do this operation on a scalar.'')"
proof -
  from scalar_tensor_wraps[OF tensor_state_facts] obtain lit s' where
    w1: "wrap plain_numpy (Num 5) tensor_state = Inr (lit, s')" and
    w2: "wrap plain_numpy (ResultV 0) s' = Inr (0, s')" and
    c1: "constant_and_not_shape s' lit = Inr True" and
    c2: "constant_and_not_shape s' 0 = Inr False"
    by blast
  from scalar_switch_without_reverse[OF w1 w2 c2 c1, of "node ''add_elemwise_inplace''"
      "node ''add_scalar_inplace''"] w1 w2 c1 c2
  show ?thesis by blast
qed

theorem scalar_switch_without_reverse_counterexample:
  "(\<exists>m. add_inplace plain_numpy node (Num 5) (ResultV 0) tensor_state = Inl (TypeError m))
   \<and> (\<exists>m. input plain_numpy (ResultV 0) tensor_state = Inl (TypeError m))"
proof -
  from scalar_tensor_wraps[OF tensor_state_facts] obtain lit s' where
    w1: "wrap plain_numpy (Num 5) tensor_state = Inr (lit, s')" and
    w2: "wrap plain_numpy (ResultV 0) s' = Inr (0, s')" and
    c1: "constant_and_not_shape s' lit = Inr True" and
    c2: "constant_and_not_shape s' 0 = Inr False"
    by blast
  have "add_inplace plain_numpy node (Num 5) (ResultV 0) tensor_state =
         Inl (TypeError ''You cannot do this operation on a scalar.'')"
    using scalar_switch_cases[OF w1 w2, of "node ''add_elemwise_inplace''"
        "node ''add_scalar_inplace''" None] c1 c2
    by (simp add: add_inplace_def)
  moreover have "input plain_numpy (ResultV 0) tensor_state = Inl (TypeError ''%s is already a result.'')"
    by (simp add: input_def)
  ultimately show ?thesis by blast
qed

section \<open>The contract of the gradient rule\<close>

lemma getitems_Inr:
  "getitems getitem grad_d outs = Inr gs \<Longrightarrow>
     length gs = length outs \<and> (\<forall>i < length outs. getitem grad_d (outs ! i) = Inr (gs ! i))"
proof (induction outs arbitrary: gs)
  case Nil
  then show ?case by simp
next
  case (Cons out rest)
  from Cons.prems obtain g gs' where g: "getitem grad_d out = Inr g"
    and r: "getitems getitem grad_d rest = Inr gs'" and gs: "gs = g # gs'"
    by (auto split: sum.splits)
  from Cons.IH[OF r] g show ?case
    by (auto simp: gs nth_Cons split: nat.splits)
qed

lemma add_all_total:
  "(\<And>g r v. add_grad g r v = Inr (f g r v)) \<Longrightarrow>
   add_all add_grad ps grad_d = (foldl (\<lambda>g (r, v). f g r v) grad_d ps, None)"
  by (induction ps arbitrary: grad_d) auto

text \<open>
  Claim C9 (as amended).  \<^verbatim>\<open>update_gradient\<close> calls the gradient rule on the inputs
  followed by \<^verbatim>\<open>grad_d[output]\<close> for each output, in order.  If the operator has exactly
  one input and the rule returns a bare instance of \<^verbatim>\<open>gof.PythonR\<close>, that gradient is
  added for the input.  If the rule returns a sequence as long as the inputs, each
  gradient is added for the input at the same position.  A sequence of another
  length raises \<^verbatim>\<open>AssertionError\<close>, and a bare value in every other case (a bare object
  that is not a \<^verbatim>\<open>PythonR\<close>, whatever the number of inputs, or a bare \<^verbatim>\<open>PythonR\<close> when
  the operator does not have exactly one input) raises an error as well; in both
  cases the accumulator is as it was: nothing has been added.  Adding is the loop
  \<open>add_all\<close>, which, when \<^verbatim>\<open>grad_d.add\<close> does not raise, is the fold of \<^verbatim>\<open>grad_d.add\<close> over
  the pairs of an input and its gradient.  (The bare result of a one-input operator
  is not accepted when it is not a \<^verbatim>\<open>PythonR\<close>: \<open>update_gradient_contract_counterexample\<close>,
  with the rule of \<^verbatim>\<open>ones_like\<close>.)
\<close>

theorem update_gradient_contract:
  assumes "getitems getitem grad_d (outputs self) = Inr gs"
      and "grad (map InputArg (inputs self) @ map GradArg gs) = Inr inputgs"
  shows "length gs = length (outputs self)
       \<and> (\<forall>i < length (outputs self). getitem grad_d (outputs self ! i) = Inr (gs ! i))
       \<and> (\<forall>g. inputgs = PythonR_value g \<and> length (inputs self) = 1 \<longrightarrow>
             update_gradient getitem add_grad grad self grad_d =
               add_all add_grad (zip (inputs self) [g]) grad_d)
       \<and> (\<forall>gs'. inputgs = Sequence gs' \<and> length gs' = length (inputs self) \<longrightarrow>
             update_gradient getitem add_grad grad self grad_d =
               add_all add_grad (zip (inputs self) gs') grad_d)
       \<and> (\<forall>gs'. inputgs = Sequence gs' \<and> length gs' \<noteq> length (inputs self) \<longrightarrow>
             update_gradient getitem add_grad grad self grad_d = (grad_d, Some AssertionError))
       \<and> ((\<exists>g. inputgs = PythonR_value g \<and> length (inputs self) \<noteq> 1) \<or> (\<exists>v. inputgs = Unsized v) \<longrightarrow>
             (\<exists>e. update_gradient getitem add_grad grad self grad_d = (grad_d, Some e)))
       \<and> (\<forall>f ps. (\<forall>g r v. add_grad g r v = Inr (f g r v)) \<longrightarrow>
             add_all add_grad ps grad_d = (foldl (\<lambda>g (r, v). f g r v) grad_d ps, None))"
proof -
  note gi = getitems_Inr[OF assms(1)]
  have a0: "length gs = length (outputs self)" using gi by simp
  have a1: "\<forall>i < length (outputs self). getitem grad_d (outputs self ! i) = Inr (gs ! i)"
    using gi by simp
  have c1: "\<forall>g. inputgs = PythonR_value g \<and> length (inputs self) = 1 \<longrightarrow>
             update_gradient getitem add_grad grad self grad_d =
               add_all add_grad (zip (inputs self) [g]) grad_d"
    using assms by (simp add: update_gradient_def isinstance_PythonR_def items_def)
  have c2: "\<forall>gs'. inputgs = Sequence gs' \<and> length gs' = length (inputs self) \<longrightarrow>
             update_gradient getitem add_grad grad self grad_d =
               add_all add_grad (zip (inputs self) gs') grad_d"
    using assms by (simp add: update_gradient_def py_len_def isinstance_PythonR_def items_def)
  have c3: "\<forall>gs'. inputgs = Sequence gs' \<and> length gs' \<noteq> length (inputs self) \<longrightarrow>
             update_gradient getitem add_grad grad self grad_d = (grad_d, Some AssertionError)"
    using assms by (simp add: update_gradient_def py_len_def isinstance_PythonR_def items_def)
  have c4: "(\<exists>g. inputgs = PythonR_value g \<and> length (inputs self) \<noteq> 1) \<or> (\<exists>v. inputgs = Unsized v) \<longrightarrow>
             (\<exists>e. update_gradient getitem add_grad grad self grad_d = (grad_d, Some e))"
    using assms by (auto simp: update_gradient_def py_len_def isinstance_PythonR_def items_def)
  have c5: "\<forall>f ps. (\<forall>g r v. add_grad g r v = Inr (f g r v)) \<longrightarrow>
             add_all add_grad ps grad_d = (foldl (\<lambda>g (r, v). f g r v) grad_d ps, None)"
  proof (intro allI impI)
    fix f ps assume "\<forall>g r v. add_grad g r v = Inr (f g r v)"
    then show "add_all add_grad ps grad_d = (foldl (\<lambda>g (r, v). f g r v) grad_d ps, None)"
      using add_all_total[of add_grad f ps grad_d] by simp
  qed
  show ?thesis
    by (intro conjI) (fact a0 a1 c1 c2 c3 c4 c5)+
qed

theorem update_gradient_contract_witness:
  "update_gradient list_getitem list_add neg_grad
      \<lparr>cls_name = ''neg'', inputs = [0], outputs = [1]\<rparr> [(1, [''g1''])] =
     ([(1, [''g1'']), (0, [''-g1''])], None)
   \<and> update_gradient list_getitem list_add add_elemwise_grad
      \<lparr>cls_name = ''add_elemwise'', inputs = [0, 2], outputs = [1]\<rparr> [(1, [''g1''])] =
     ([(1, [''g1'']), (0, [''g1'']), (2, [''g1''])], None)
   \<and> update_gradient list_getitem list_add (\<lambda>args. Inr (Sequence [''g'']))
      \<lparr>cls_name = ''add_elemwise'', inputs = [0, 2], outputs = [1]\<rparr> [(1, [''g1''])] =
     ([(1, [''g1''])], Some AssertionError)"
proof -
  let ?neg = "\<lparr>cls_name = ''neg'', inputs = [0], outputs = [1]\<rparr>"
  let ?add = "\<lparr>cls_name = ''add_elemwise'', inputs = [0, 2], outputs = [1]\<rparr>"
  let ?d = "[(1::nat, [''g1''])]"
  have g1: "getitems list_getitem ?d (outputs ?neg) = Inr [''g1'']"
    and g2: "getitems list_getitem ?d (outputs ?add) = Inr [''g1'']"
    by (simp_all add: list_getitem_def)
  have r1: "neg_grad (map InputArg (inputs ?neg) @ map GradArg [''g1'']) = Inr (PythonR_value ''-g1'')"
    by (simp add: neg_grad_def)
  have r2: "add_elemwise_grad (map InputArg (inputs ?add) @ map GradArg [''g1'']) =
              Inr (Sequence [''g1'', ''g1''])"
    by (simp add: add_elemwise_grad_def)
  have r3: "(\<lambda>args. Inr (Sequence [''g''])) (map InputArg (inputs ?add) @ map GradArg [''g1'']) =
              (Inr (Sequence [''g'']) :: error + string grad_ret)"
    by simp
  have a: "update_gradient list_getitem list_add neg_grad ?neg ?d =
             add_all list_add (zip (inputs ?neg) [''-g1'']) ?d"
    using update_gradient_contract[where getitem=list_getitem and grad=neg_grad and self="?neg"
        and grad_d="?d" and gs="[''g1'']" and inputgs="PythonR_value ''-g1''" and add_grad=list_add, OF g1 r1, THEN conjunct2, THEN conjunct2,
        THEN conjunct1, rule_format, of "''-g1''"]
    by simp
  have b: "update_gradient list_getitem list_add add_elemwise_grad ?add ?d =
             add_all list_add (zip (inputs ?add) [''g1'', ''g1'']) ?d"
    using update_gradient_contract[where getitem=list_getitem and grad=add_elemwise_grad and self="?add"
        and grad_d="?d" and gs="[''g1'']" and inputgs="Sequence [''g1'', ''g1'']" and add_grad=list_add, OF g2 r2, THEN conjunct2, THEN conjunct2,
        THEN conjunct2, THEN conjunct1, rule_format, of "[''g1'', ''g1'']"]
    by simp
  have c: "update_gradient list_getitem list_add (\<lambda>args. Inr (Sequence [''g''])) ?add ?d =
             (?d, Some AssertionError)"
    using update_gradient_contract[where getitem=list_getitem and grad="\<lambda>args. Inr (Sequence [''g''])"
        and self="?add" and grad_d="?d" and gs="[''g1'']" and inputgs="Sequence [''g'']"
        and add_grad=list_add, OF g2 r3, THEN conjunct2, THEN conjunct2,
        THEN conjunct2, THEN conjunct2, THEN conjunct1, rule_format, of "[''g'']"]
    by simp
  show ?thesis
    unfolding a b c by (simp add: list_add_def dict_get_def)
qed

theorem update_gradient_contract_counterexample:
  "length (inputs \<lparr>cls_name = ''ones_like'', inputs = [0], outputs = [1]\<rparr>) = 1
   \<and> ones_like_grad
        (map InputArg (inputs \<lparr>cls_name = ''ones_like'', inputs = [0], outputs = [1]\<rparr>) @
         map GradArg [''g1'']) = Inr (Unsized ''UNDEFINED'')
   \<and> \<not> isinstance_PythonR (Unsized ''UNDEFINED'')
   \<and> update_gradient list_getitem list_add ones_like_grad
        \<lparr>cls_name = ''ones_like'', inputs = [0], outputs = [1]\<rparr> [(1, [''g1''])] =
      ([(1, [''g1''])], Some (TypeError ''object has no len()''))"
  by (simp add: update_gradient_def ones_like_grad_def list_getitem_def isinstance_PythonR_def
        py_len_def)

section \<open>The inferred specification\<close>






section \<open>In-place operators share the storage of their input\<close>

lemma set_value_array:
  assumes "array_or_uncomputed st v"
  shows "set_value np r v st =
           st\<lparr>results := (results st)
              [r := (results st ! r)\<lparr>data := v, spec := refresh_spec st v (spec (results st ! r)),
                                    up_to_date := True\<rparr>]\<rparr>"
  using assms
  by (auto simp: set_value_def array_or_uncomputed_def asarray_def Let_def
           split: handle.splits pyobj.splits)

lemma set_value_frame:
  assumes "array_or_uncomputed st v"
  shows "heap (set_value np r v st) = heap st"
    and "length (results (set_value np r v st)) = length (results st)"
    and "r < length (results st) \<Longrightarrow> data (results (set_value np r v st) ! r) = v"
    and "r' \<noteq> r \<Longrightarrow> results (set_value np r v st) ! r' = results st ! r'"
  by (simp_all add: set_value_array[OF assms])

lemma array_or_uncomputed_heap:
  "heap st' = heap st \<Longrightarrow> array_or_uncomputed st' h = array_or_uncomputed st h"
  by (auto simp: array_or_uncomputed_def heap_get_def split: handle.splits)

lemma alloc_loop_aliases:
  assumes "alloc_loop np ex dmap st = (st', None)"
      and "distinct (map fst dmap)"
      and "\<forall>(out, ins) \<in> set dmap. out < length (results st) \<and>
             (\<forall>inp \<in> set ins. inp \<notin> fst ` set dmap \<and>
                array_or_uncomputed st (data (results st ! inp)))"
  shows "heap st' = heap st \<and> length (results st') = length (results st)
       \<and> (\<forall>r. r \<notin> fst ` set dmap \<longrightarrow> results st' ! r = results st ! r)
       \<and> (\<forall>(out, ins) \<in> set dmap. \<exists>inp. ins = [inp] \<and>
             (out \<notin> set ex \<longrightarrow> data (results st' ! out) = data (results st ! inp)))"
  using assms
proof (induction dmap arbitrary: st)
  case Nil
  then show ?case by simp
next
  case (Cons e rest)
  obtain out ins where e: "e = (out, ins)" by (cases e)
  from Cons.prems(1) e obtain inp where ins: "ins = [inp]"
    by (cases ins; cases "tl ins") (auto split: list.splits)
  let ?v = "data (results st ! inp)"
  let ?st1 = "if out \<notin> set ex then set_value np out ?v st else st"
  from Cons.prems(1) have run: "alloc_loop np ex rest ?st1 = (st', None)"
    by (cases "out \<in> set ex") (simp_all add: e ins)
  have "e \<in> set (e # rest)" by simp
  from bspec[OF Cons.prems(3) this] have out_lt: "out < length (results st)"
    and inp_nk: "inp \<notin> fst ` set (e # rest)"
    and good: "array_or_uncomputed st ?v"
    by (simp_all add: e ins)
  have h1: "heap ?st1 = heap st" and l1: "length (results ?st1) = length (results st)"
    using set_value_frame(1,2)[OF good] by auto
  have f1: "r \<noteq> out \<Longrightarrow> results ?st1 ! r = results st ! r" for r
    using set_value_frame(4)[OF good] by auto
  have d1: "out \<notin> set ex \<Longrightarrow> data (results ?st1 ! out) = ?v"
    using set_value_frame(3)[OF good out_lt] by auto
  from Cons.prems(2) have dist: "distinct (map fst rest)" and out_nr: "out \<notin> fst ` set rest"
    by (auto simp: e)
  have pre: "\<forall>(out', ins') \<in> set rest. out' < length (results ?st1) \<and>
             (\<forall>inp' \<in> set ins'. inp' \<notin> fst ` set rest \<and>
                array_or_uncomputed ?st1 (data (results ?st1 ! inp')))"
  proof (clarify)
    fix out' ins' assume m: "(out', ins') \<in> set rest"
    then have mm: "(out', ins') \<in> set (e # rest)" by simp
    from bspec[OF Cons.prems(3) mm] have a: "out' < length (results st)"
      and b: "\<forall>inp' \<in> set ins'. inp' \<notin> fst ` set (e # rest) \<and>
                array_or_uncomputed st (data (results st ! inp'))"
      by simp_all
    show "out' < length (results ?st1) \<and>
             (\<forall>inp' \<in> set ins'. inp' \<notin> fst ` set rest \<and>
                array_or_uncomputed ?st1 (data (results ?st1 ! inp')))"
    proof (intro conjI ballI)
      show "out' < length (results ?st1)" using a l1 by simp
    next
      fix inp' assume i: "inp' \<in> set ins'"
      with b show "inp' \<notin> fst ` set rest" by auto
    next
      fix inp' assume i: "inp' \<in> set ins'"
      with b have ne: "inp' \<noteq> out" and g: "array_or_uncomputed st (data (results st ! inp'))"
        by (auto simp: e)
      from f1[OF ne] g array_or_uncomputed_heap[OF h1]
      show "array_or_uncomputed ?st1 (data (results ?st1 ! inp'))" by simp
    qed
  qed
  note IH = Cons.IH[OF run dist pre]
  from IH h1 l1 have c1: "heap st' = heap st" "length (results st') = length (results st)"
    by simp_all
  have c2: "\<forall>r. r \<notin> fst ` set (e # rest) \<longrightarrow> results st' ! r = results st ! r"
    using IH f1 by (auto simp: e)
  have c3: "\<forall>(out', ins') \<in> set (e # rest). \<exists>inp'. ins' = [inp'] \<and>
             (out' \<notin> set ex \<longrightarrow> data (results st' ! out') = data (results st ! inp'))"
  proof (clarify)
    fix out' ins' assume m: "(out', ins') \<in> set (e # rest)"
    show "\<exists>inp'. ins' = [inp'] \<and>
             (out' \<notin> set ex \<longrightarrow> data (results st' ! out') = data (results st ! inp'))"
    proof (cases "(out', ins') = e")
      case True
      then have o: "out' = out" "ins' = [inp]" by (simp_all add: e ins)
      from IH out_nr have "results st' ! out = results ?st1 ! out" by blast
      with d1 show ?thesis by (auto simp: o)
    next
      case False
      with m have mr: "(out', ins') \<in> set rest" by simp
      with IH obtain inp' where i: "ins' = [inp']"
        and k: "out' \<notin> set ex \<longrightarrow> data (results st' ! out') = data (results ?st1 ! inp')"
        by blast
      from bspec[OF Cons.prems(3) m] i have "inp' \<notin> fst ` set (e # rest)" by simp
      then have "inp' \<noteq> out" by (auto simp: e)
      from f1[OF this] k i show ?thesis by simp
    qed
  qed
  from c1 c2 c3 show ?case by blast
qed

lemma setslice_results:
  "setslice np a v st = Inr st' \<Longrightarrow> results st' = results st"
  by (auto simp: setslice_def split: handle.splits pyobj.splits if_splits sum.splits)

lemma copy_back_handles:
  assumes "copy_back np ins False es res st = (Inr res', st')"
      and "distinct (map fst es)"
  shows "results st' = results st \<and> length res' = length res
       \<and> (\<forall>k. k \<notin> fst ` set es \<longrightarrow> res' ! k = res ! k)
       \<and> (\<forall>(out, inp) \<in> set es. \<exists>r. py_nth ins inp = Inr r \<and> out < length res
             \<and> res' ! out = data (results st ! r))"
  using assms
proof (induction es arbitrary: res st)
  case Nil
  then show ?case by simp
next
  case (Cons e rest)
  obtain out inp where e: "e = (out, inp)" by (cases e)
  from Cons.prems(1) obtain r v st1 where
    r: "py_nth ins inp = Inr r" and v: "py_nth res out = Inr v"
    and s: "setslice np (data (results st ! r)) v st = Inr st1"
    and run: "copy_back np ins False rest (res[out := data (results st ! r)]) st1 = (Inr res', st')"
    by (auto simp: e Let_def split: sum.splits)
  from v have out_lt: "out < length res" by (simp add: py_nth_def split: if_splits)
  from Cons.prems(2) have dist: "distinct (map fst rest)" and out_nr: "out \<notin> fst ` set rest"
    by (auto simp: e)
  note rs = setslice_results[OF s]
  note IH = Cons.IH[OF run dist]
  from IH rs have c1: "results st' = results st" "length res' = length res" by simp_all
  have c2: "\<forall>k. k \<notin> fst ` set (e # rest) \<longrightarrow> res' ! k = res ! k"
    using IH by (auto simp: e)
  have c3: "\<forall>(out', inp') \<in> set (e # rest). \<exists>r'. py_nth ins inp' = Inr r' \<and> out' < length res
             \<and> res' ! out' = data (results st ! r')"
  proof (clarify)
    fix out' inp' assume m: "(out', inp') \<in> set (e # rest)"
    show "\<exists>r'. py_nth ins inp' = Inr r' \<and> out' < length res
             \<and> res' ! out' = data (results st ! r')"
    proof (cases "(out', inp') = e")
      case True
      then have o: "out' = out" "inp' = inp" by (simp_all add: e)
      from IH out_nr have "res' ! out = (res[out := data (results st ! r)]) ! out" by blast
      with out_lt have "res' ! out = data (results st ! r)" by simp
      with r out_lt show ?thesis by (simp add: o)
    next
      case False
      with m have mr: "(out', inp') \<in> set rest" by simp
      from IH have "\<forall>(out, inp) \<in> set rest. \<exists>r'. py_nth ins inp = Inr r'
             \<and> out < length (res[out := data (results st ! r)])
             \<and> res' ! out = data (results st1 ! r')" by simp
      from bspec[OF this mr] rs show ?thesis by simp
    qed
  qed
  from c1 c2 c3 show ?case by blast
qed

lemma C_impl_returns_buffers:
  assumes "\<not> user_impl" and "cls_impl s = (Inr r, s1)" and "\<forall>hs. r \<noteq> PyTuple hs"
      and "distinct (map fst imap)"
      and "C_impl np user_impl cls_impl imap self s = (Inr ret, s2)"
  shows "results s2 = results s1
       \<and> (\<forall>(out, inp) \<in> set imap. \<exists>i. py_nth (inputs self) inp = Inr i
             \<and> out < length (ret_list ret) \<and> ret_list ret ! out = data (results s2 ! i))"
proof -
  from assms(3) have nt: "(case r of PyTuple hs \<Rightarrow> True | _ \<Rightarrow> False) = False"
    by (cases r) simp_all
  from assms(1,2,5) nt obtain res' where
    cb: "copy_back np (inputs self) False imap (ret_list r) s1 = (Inr res', s2)"
    and ret: "ret = (case res' of [h] \<Rightarrow> One h | _ \<Rightarrow> PyList res')"
    by (auto simp: C_impl_def Let_def split: prod.splits sum.splits list.splits)
  have rl: "ret_list ret = res'"
    unfolding ret by (auto simp: ret_list_def split: list.splits)
  from copy_back_handles[OF cb assms(4)] show ?thesis
    unfolding rl by auto
qed

text \<open>
  Claim C2 (as amended).  Let the destroy map of an in-place operator have distinct
  outputs as keys, none of which is one of the aliased inputs, and let the data of
  every aliased input be an array or \<^verbatim>\<open>UNCOMPUTED\<close>.  After \<^verbatim>\<open>alloc\<close> has returned, every
  output of the destroy map that is not in \<^verbatim>\<open>except_list\<close> has as its data the very
  handle that is the data of its input, which \<^verbatim>\<open>alloc\<close> has left as it was.  And when
  no implementation of the user's own is set and the base implementation returns an
  object or a list, the derived \<^verbatim>\<open>_impl\<close>, when it returns, returns at the position of
  every destroyed output the data handle of the aliased input.  (An output in
  \<^verbatim>\<open>except_list\<close> is left alone: \<open>alloc_and_impl_alias_counterexample\<close>.)
\<close>

theorem alloc_and_impl_alias:
  "(python_op_alloc (except_list @ map fst dmap) st = Inr st1
      \<and> alloc python_op_alloc np self except_list st = (st', None)
      \<and> dmap = (if is_inplace self then destroy_map self else [])
      \<and> distinct (map fst dmap)
      \<and> (\<forall>(out, ins) \<in> set dmap. out < length (results st1) \<and>
            (\<forall>inp \<in> set ins. inp \<notin> fst ` set dmap \<and>
               array_or_uncomputed st1 (data (results st1 ! inp))))
     \<longrightarrow> (\<forall>(out, ins) \<in> set dmap. out \<notin> set except_list \<longrightarrow>
            (\<exists>inp. ins = [inp] \<and> data (results st' ! out) = data (results st' ! inp)
                \<and> data (results st' ! inp) = data (results st1 ! inp))))
   \<and> (\<not> user_impl \<and> cls_impl s = (Inr r, s1) \<and> (\<forall>hs. r \<noteq> PyTuple hs)
      \<and> distinct (map fst imap)
      \<and> C_impl np user_impl cls_impl imap self s = (Inr ret, s2)
     \<longrightarrow> results s2 = results s1
       \<and> (\<forall>(out, inp) \<in> set imap. \<exists>i. py_nth (inputs self) inp = Inr i
             \<and> out < length (ret_list ret) \<and> ret_list ret ! out = data (results s2 ! i)))"
proof (rule conjI; rule impI)
  assume a: "python_op_alloc (except_list @ map fst dmap) st = Inr st1
      \<and> alloc python_op_alloc np self except_list st = (st', None)
      \<and> dmap = (if is_inplace self then destroy_map self else [])
      \<and> distinct (map fst dmap)
      \<and> (\<forall>(out, ins) \<in> set dmap. out < length (results st1) \<and>
            (\<forall>inp \<in> set ins. inp \<notin> fst ` set dmap \<and>
               array_or_uncomputed st1 (data (results st1 ! inp))))"
  then have a1: "python_op_alloc (except_list @ map fst dmap) st = Inr st1"
    and a2: "alloc python_op_alloc np self except_list st = (st', None)"
    and a3: "dmap = (if is_inplace self then destroy_map self else [])"
    and dist: "distinct (map fst dmap)"
    and pre: "\<forall>(out, ins) \<in> set dmap. out < length (results st1) \<and>
            (\<forall>inp \<in> set ins. inp \<notin> fst ` set dmap \<and>
               array_or_uncomputed st1 (data (results st1 ! inp)))"
    by blast+
  from a2 have run: "alloc_loop np except_list dmap st1 = (st', None)"
    unfolding alloc_def Let_def a3[symmetric] a1 by simp
  note L = alloc_loop_aliases[OF run dist pre]
  show "\<forall>(out, ins) \<in> set dmap. out \<notin> set except_list \<longrightarrow>
            (\<exists>inp. ins = [inp] \<and> data (results st' ! out) = data (results st' ! inp)
                \<and> data (results st' ! inp) = data (results st1 ! inp))"
  proof (clarify)
    fix out ins assume m: "(out, ins) \<in> set dmap" and nx: "out \<notin> set except_list"
    from L have "\<forall>(out, ins) \<in> set dmap. \<exists>inp. ins = [inp] \<and>
             (out \<notin> set except_list \<longrightarrow> data (results st' ! out) = data (results st1 ! inp))"
      by simp
    from bspec[OF this m] nx obtain inp where i: "ins = [inp]"
      and d: "data (results st' ! out) = data (results st1 ! inp)" by auto
    from bspec[OF pre m] i have "inp \<notin> fst ` set dmap" by simp
    with L have "results st' ! inp = results st1 ! inp" by blast
    with i d show "\<exists>inp. ins = [inp] \<and> data (results st' ! out) = data (results st' ! inp)
                \<and> data (results st' ! inp) = data (results st1 ! inp)" by simp
  qed
next
  assume b: "\<not> user_impl \<and> cls_impl s = (Inr r, s1) \<and> (\<forall>hs. r \<noteq> PyTuple hs)
      \<and> distinct (map fst imap)
      \<and> C_impl np user_impl cls_impl imap self s = (Inr ret, s2)"
  then have b1: "\<not> user_impl" and b2: "cls_impl s = (Inr r, s1)" and b3: "\<forall>hs. r \<noteq> PyTuple hs"
    and b4: "distinct (map fst imap)"
    and b5: "C_impl np user_impl cls_impl imap self s = (Inr ret, s2)" by blast+
  from C_impl_returns_buffers[OF b1 b2 b3 b4 b5]
  show "results s2 = results s1
       \<and> (\<forall>(out, inp) \<in> set imap. \<exists>i. py_nth (inputs self) inp = Inr i
             \<and> out < length (ret_list ret) \<and> ret_list ret ! out = data (results s2 ! i))" .
qed

lemma alloc_example:
  "alloc (\<lambda>ex st. Inr st) plain_numpy add_elemwise_inplace_xy [] two_tensor_state =
     (two_tensor_state\<lparr>results := (results two_tensor_state)
        [2 := \<lparr>rclass = NumpyR, data = Ref 0,
               spec = Some (''numpy.ndarray'', ''float32'', Some [3]),
               constant_flag = False, up_to_date = True\<rparr>]\<rparr>, None)"
  by (simp add: alloc_def add_elemwise_inplace_xy_def two_tensor_state_def set_value_def
        asarray_def heap_get_def refresh_spec_def Let_def)

lemma C_impl_example:
  "C_impl plain_numpy False add_impl [(0, 0)] add_elemwise_inplace_xy two_tensor_state =
     (Inr (One (Ref 0)),
      two_tensor_state\<lparr>heap := [Array ''float32'' [3] [11, 22, 33],
                                 Array ''float64'' [3] [10, 20, 30],
                                 Array ''float64'' [3] [11, 22, 33]]\<rparr>)"
  by (simp add: C_impl_def add_impl_def heap_alloc_def add_elemwise_inplace_xy_def
        two_tensor_state_def ret_list_def py_nth_def setslice_def heap_get_def plain_numpy_def
        Let_def)

theorem alloc_and_impl_alias_witness:
  "\<exists>st' ret s2.
      alloc (\<lambda>ex st. Inr st) plain_numpy add_elemwise_inplace_xy [] two_tensor_state = (st', None)
    \<and> data (results st' ! 2) = data (results st' ! 0)
    \<and> data (results st' ! 0) = Ref 0
    \<and> C_impl plain_numpy False add_impl [(0, 0)] add_elemwise_inplace_xy two_tensor_state =
        (Inr ret, s2)
    \<and> ret_list ret ! 0 = data (results s2 ! 0)
    \<and> data (results s2 ! 0) = Ref 0"
proof -
  let ?self = add_elemwise_inplace_xy
  let ?st' = "two_tensor_state\<lparr>results := (results two_tensor_state)
        [2 := \<lparr>rclass = NumpyR, data = Ref 0,
               spec = Some (''numpy.ndarray'', ''float32'', Some [3]),
               constant_flag = False, up_to_date = True\<rparr>]\<rparr>"
  let ?s1 = "two_tensor_state\<lparr>heap := heap two_tensor_state @ [Array ''float64'' [3] [11, 22, 33]]\<rparr>"
  let ?s2 = "two_tensor_state\<lparr>heap := [Array ''float32'' [3] [11, 22, 33],
                                 Array ''float64'' [3] [10, 20, 30],
                                 Array ''float64'' [3] [11, 22, 33]]\<rparr>"
  note T = alloc_and_impl_alias[where python_op_alloc = "\<lambda>ex st. Inr st" and except_list = "[]"
      and dmap = "[(2, [0])]" and st = two_tensor_state and ?st1.0 = two_tensor_state
      and st' = "?st'" and np = plain_numpy and self = ?self
      and user_impl = False and cls_impl = add_impl and s = two_tensor_state
      and r = "One (Ref 2)" and ?s1.0 = "?s1" and imap = "[(0, 0)]" and ret = "One (Ref 0)"
      and ?s2.0 = "?s2"]
  have A: "(\<lambda>ex st. Inr st) ([] @ map fst [(2::nat, [0::nat])]) two_tensor_state = Inr two_tensor_state
      \<and> alloc (\<lambda>ex st. Inr st) plain_numpy ?self [] two_tensor_state = (?st', None)
      \<and> [(2, [0])] = (if is_inplace ?self then destroy_map ?self else [])
      \<and> distinct (map fst [(2::nat, [0::nat])])
      \<and> (\<forall>(out, ins) \<in> set [(2, [0])]. out < length (results two_tensor_state) \<and>
            (\<forall>inp \<in> set ins. inp \<notin> fst ` set [(2::nat, [0::nat])] \<and>
               array_or_uncomputed two_tensor_state (data (results two_tensor_state ! inp))))"
    using alloc_example
    by (simp add: add_elemwise_inplace_xy_def two_tensor_state_def array_or_uncomputed_def
          heap_get_def)
  have B: "\<not> False \<and> add_impl two_tensor_state = (Inr (One (Ref 2)), ?s1)
      \<and> (\<forall>hs. One (Ref 2) \<noteq> PyTuple hs)
      \<and> distinct (map fst [(0::nat, 0::nat)])
      \<and> C_impl plain_numpy False add_impl [(0, 0)] ?self two_tensor_state = (Inr (One (Ref 0)), ?s2)"
    using C_impl_example
    by (simp add: add_impl_def heap_alloc_def two_tensor_state_def)
  from T[THEN conjunct1, THEN mp, OF A]
  have a: "data (results ?st' ! 2) = data (results ?st' ! 0)"
    and a': "data (results ?st' ! 0) = data (results two_tensor_state ! 0)"
    by simp_all
  from T[THEN conjunct2, THEN mp, OF B]
  have b: "ret_list (One (Ref 0)) ! 0 = data (results ?s2 ! 0)"
    by (simp add: add_elemwise_inplace_xy_def py_nth_def)
  have d0: "data (results two_tensor_state ! 0) = Ref 0"
    by (simp add: two_tensor_state_def)
  have d2: "data (results ?s2 ! 0) = Ref 0"
    by (simp add: two_tensor_state_def)
  from A B a a' b d0 d2 show ?thesis
    by (intro exI[of _ "?st'"] exI[of _ "One (Ref 0)"] exI[of _ "?s2"]) simp
qed

theorem alloc_and_impl_alias_counterexample:
  "\<exists>st'. alloc (\<lambda>ex st. Inr st) plain_numpy add_elemwise_inplace_xy [2] two_tensor_state = (st', None)
     \<and> is_inplace add_elemwise_inplace_xy
     \<and> map_of (destroy_map add_elemwise_inplace_xy) 2 = Some [0]
     \<and> data (results st' ! 2) = UNCOMPUTED
     \<and> data (results st' ! 0) = Ref 0
     \<and> data (results st' ! 2) \<noteq> data (results st' ! 0)"
  by (simp add: alloc_def add_elemwise_inplace_xy_def two_tensor_state_def)

section \<open>The derived in-place implementation\<close>










lemma C_impl_tuple_raises:
  "C_impl plain_numpy False pair_impl [(0, 0)]
      (add_elemwise_inplace_xy\<lparr>outputs := [2, 3]\<rparr>) two_tensor_state =
     (Inl (TypeError ''tuple object does not support item assignment''),
      two_tensor_state\<lparr>heap := [Array ''float32'' [3] [2, 4, 6],
                                 Array ''float64'' [3] [10, 20, 30],
                                 Array ''float32'' [3] [2, 4, 6],
                                 Array ''float32'' [3] [3, 6, 9]]\<rparr>)"
  by (simp add: C_impl_def pair_impl_def heap_alloc_def add_elemwise_inplace_xy_def
        two_tensor_state_def ret_list_def py_nth_def setslice_def heap_get_def plain_numpy_def
        Let_def)


end
